theory Spec2Isabelle
  imports Main "HOL-Library.Word"
begin

unbundle bit_operations_syntax

section \<open>The glTF decoder (decoder.go) and the typed model (struct.go)\<close>

text \<open>
  Go values are modelled as follows.  A \<open>string\<close> and a \<open>[]byte\<close> are lists (of
  \<open>char\<close>, of \<open>8 word\<close>); \<open>uint32\<close> is \<open>32 word\<close>, so that \<open>+\<close> wraps as it
  does in Go; Go's \<open>int\<close> is taken at its 64-bit width, where it holds every
  \<open>uint32\<close> and every slice length, and is written as \<open>int\<close>.  An \<open>error\<close> result is
  an \<open>error option\<close> (\<open>None\<close> is Go's \<open>nil\<close>).  A pointer receiver that a method
  updates is passed in and returned.
\<close>

type_synonym byte = "8 word"
type_synonym uint32 = "32 word"

subsection \<open>Errors\<close>

text \<open>
  One constructor for each error the two source files create with \<open>errors.New\<close> or
  \<open>fmt.Errorf\<close>, and one for each error of the standard library that the decoder
  hands on: \<open>io.EOF\<close>, \<open>io.ErrUnexpectedEOF\<close>, base64's \<open>CorruptInputError\<close>, any
  other I/O error of a reader or of the callback (numbered), a JSON decoding error
  (numbered), the run-time panic of a slice expression out of range, and the error of
  \<open>json.Marshal\<close> on a NaN or an infinity.
\<close>

datatype error =
    ErrQuotaBufferCount       \<comment> \<open>gltf: Quota exceeded, number of buffer > MaxBufferCount\<close>
  | ErrQuotaGLB               \<comment> \<open>gltf: Quota exceeded, bytes of glb buffer > MaxMemoryAllocation\<close>
  | ErrInvalidGLBJSONHeader   \<comment> \<open>gltf: Invalid GLB JSON header\<close>
  | ErrBufferWithoutURI       \<comment> \<open>gltf: buffer without URI\<close>
  | ErrInvalidGLBBINHeader    \<comment> \<open>gltf: Invalid GLB BIN header\<close>
  | ErrInvalidByteLength      \<comment> \<open>gltf: Invalid buffer.byteLength value = 0\<close>
  | ErrQuotaBuffer            \<comment> \<open>gltf: Quota exceeded, bytes of buffer > MaxMemoryAllocation\<close>
  | ErrInvalidBufferURI string \<comment> \<open>gltf: Invalid buffer.uri value '%s'\<close>
  | EOF
  | ErrUnexpectedEOF
  | CorruptInputError
  | IOError nat
  | JSONError nat
  | PanicSliceBounds
  | UnsupportedValueError

subsection \<open>The functions of package strings that the sources call\<close>

definition HasPrefix :: "'a list \<Rightarrow> 'a list \<Rightarrow> bool" where
  "HasPrefix s p = (take (length p) s = p)"

fun Contains :: "'a list \<Rightarrow> 'a list \<Rightarrow> bool" where
  "Contains [] sub = (sub = [])"
| "Contains (c # cs) sub = (HasPrefix (c # cs) sub \<or> Contains cs sub)"

subsection \<open>validateBufferURI\<close>

definition validateBufferURI :: "string \<Rightarrow> error option" where
  "validateBufferURI uri =
     (if uri = [] \<or> Contains uri ''..'' \<or> HasPrefix uri ''/'' \<or> HasPrefix uri [CHR 0x5C]
      then Some (ErrInvalidBufferURI uri) else None)"

subsection \<open>Constants and types that the two files use and do not declare\<close>

text \<open>Modelled from the spec: the GLB magic constant \<open>glbHeaderMagic\<close>, which
  the sources use and do not declare (\<open>magic:u32=0x46546C67\<close>).\<close>

definition glbHeaderMagic :: uint32 where
  "glbHeaderMagic = 0x46546C67"

text \<open>Modelled from the spec: the JSON-chunk type constant \<open>glbChunkJSON\<close>, which
  the sources use and do not declare (\<open>type:u32=0x4E4F534A\<close>).\<close>

definition glbChunkJSON :: uint32 where
  "glbChunkJSON = 0x4E4F534A"

text \<open>Modelled from the spec: the binary-chunk type constant \<open>glbChunkBIN\<close>, which
  the sources use and do not declare (\<open>type:u32=0x004E4942\<close>).\<close>

definition glbChunkBIN :: uint32 where
  "glbChunkBIN = 0x004E4942"

text \<open>Modelled from the spec: the data-URI marker \<open>mimetypeApplicationOctet\<close>, which
  the sources use and do not declare.  The spec gives the embedded form as
  \<open>data:application/octet-stream;base64,<payload>\<close>; \<open>EmbeddedResource\<close> joins the
  marker and the payload with a comma and \<open>marshalData\<close> skips one character after
  the marker, so the marker itself ends before the comma.\<close>

definition mimetypeApplicationOctet :: string where
  "mimetypeApplicationOctet = ''data:application/octet-stream;base64''"

text \<open>Modelled from the spec: the header types \<open>chunkHeader\<close> and \<open>glbHeader\<close>, which
  the sources use and do not declare: \<open>magic:u32, version:u32, totalLength:u32\<close>,
  followed by the chunk header \<open>chunkLength:u32, chunkType:u32\<close>, little-endian,
  20 bytes in all (\<open>unsafe.Sizeof(header)\<close>).\<close>

record chunkHeader =
  chunk_Length :: uint32
  chunk_Type :: uint32

record glbHeader =
  Magic :: uint32
  Version :: uint32
  Length :: uint32
  JSONHeader :: chunkHeader

definition sizeof_glbHeader :: nat where
  "sizeof_glbHeader = 20"

definition sizeof_chunkHeader :: nat where
  "sizeof_chunkHeader = 8"

text \<open>
  In \<open>readGLBHeader\<close> the variable \<open>header\<close> is a \<open>glbHeader\<close>, and
  \<open>unsafe.Sizeof(header)\<close> is 20.  In \<open>validateGLBHeader\<close> the parameter \<open>header\<close> is a
  \<open>*glbHeader\<close>, and \<open>unsafe.Sizeof(header)\<close> is the size of a pointer: 8 at the
  64-bit width taken for \<open>int\<close>.
\<close>

definition sizeof_pointer :: nat where
  "sizeof_pointer = 8"

subsection \<open>Little-endian decoding (encoding/binary)\<close>

definition le32 :: "byte \<Rightarrow> byte \<Rightarrow> byte \<Rightarrow> byte \<Rightarrow> uint32" where
  "le32 b0 b1 b2 b3 =
     ucast b0 OR push_bit 8 (ucast b1) OR push_bit 16 (ucast b2) OR push_bit 24 (ucast b3)"

fun read_chunkHeader :: "byte list \<Rightarrow> chunkHeader" where
  "read_chunkHeader (a0 # a1 # a2 # a3 # b0 # b1 # b2 # b3 # _) =
     \<lparr>chunk_Length = le32 a0 a1 a2 a3, chunk_Type = le32 b0 b1 b2 b3\<rparr>"
| "read_chunkHeader _ = \<lparr>chunk_Length = 0, chunk_Type = 0\<rparr>"

fun read_glbHeader :: "byte list \<Rightarrow> glbHeader" where
  "read_glbHeader (a0 # a1 # a2 # a3 # b0 # b1 # b2 # b3 # c0 # c1 # c2 # c3 # rest) =
     \<lparr>Magic = le32 a0 a1 a2 a3, Version = le32 b0 b1 b2 b3, Length = le32 c0 c1 c2 c3,
      JSONHeader = read_chunkHeader rest\<rparr>"
| "read_glbHeader _ =
     \<lparr>Magic = 0, Version = 0, Length = 0, JSONHeader = \<lparr>chunk_Length = 0, chunk_Type = 0\<rparr>\<rparr>"

subsection \<open>Readers (io.Reader, bufio.Reader)\<close>

text \<open>
  A reader is given by what its successive \<open>Read\<close> calls deliver: a block of bytes, or
  an error; after the last delivery every call returns \<open>io.EOF\<close>.  \<open>Read p\<close> copies
  at most \<open>length p\<close> bytes of the first block into the front of \<open>p\<close> and leaves the
  rest of the block for the next call: a call never joins two blocks, which is the
  contract of \<open>io.Reader\<close> (a call may return fewer bytes than asked for) and of
  \<open>bufio.Reader.Read\<close> (the bytes are taken from at most one read of the underlying
  reader).  For the decoder's own \<open>bufio.Reader\<close> the first block stands for the
  bytes that are buffered, the later ones for the reads of the underlying input.
\<close>

datatype delivery = Bytes "byte list" | Fails error

type_synonym stream = "delivery list"

fun Read :: "stream \<Rightarrow> byte list \<Rightarrow> byte list \<times> error option \<times> stream" where
  "Read [] p = (p, Some EOF, [])"
| "Read (Fails e # s) p = (p, Some e, s)"
| "Read (Bytes c # s) p =
     (let n = min (length p) (length c)
      in (take n c @ drop n p, None, (if n < length c then Bytes (drop n c) # s else s)))"

text \<open>
  \<open>bufio.Reader.Peek n\<close> reads the underlying input until \<open>n\<close> bytes are buffered or
  a read fails.  It returns the first \<open>n\<close> buffered bytes, or fails; the error of the
  failed read is consumed; what was read stays buffered (one block).
\<close>

fun peek_fill :: "nat \<Rightarrow> byte list \<Rightarrow> stream \<Rightarrow> byte list \<times> bool \<times> stream" where
  "peek_fill n buf [] = (buf, n \<le> length buf, [])"
| "peek_fill n buf (Fails e # s) =
     (if n \<le> length buf then (buf, True, Fails e # s) else (buf, False, s))"
| "peek_fill n buf (Bytes c # s) =
     (if n \<le> length buf then (buf, True, Bytes c # s) else peek_fill n (buf @ c) s)"

definition Peek :: "nat \<Rightarrow> stream \<Rightarrow> byte list option \<times> stream" where
  "Peek n s =
     (case peek_fill n [] s of
        (buf, ok, rest) \<Rightarrow>
          (if ok then Some (take n buf) else None, if buf = [] then rest else Bytes buf # rest))"

text \<open>
  \<open>io.ReadFull\<close>, through which \<open>binary.Read\<close> fills a struct of \<open>n\<close> bytes: it calls
  \<open>Read\<close> until it has \<open>n\<close> bytes or a call fails; \<open>io.EOF\<close> after some bytes becomes
  \<open>io.ErrUnexpectedEOF\<close>.
\<close>

fun ReadFull :: "nat \<Rightarrow> stream \<Rightarrow> byte list \<times> error option \<times> stream" where
  "ReadFull n [] = ([], (if n = 0 then None else Some EOF), [])"
| "ReadFull n (Fails e # s) = (if n = 0 then ([], None, Fails e # s) else ([], Some e, s))"
| "ReadFull n (Bytes c # s) =
     (if n \<le> length c
      then (take n c, None, (if n < length c then Bytes (drop n c) # s else if n = 0 then Bytes c # s else s))
      else (case ReadFull (n - length c) s of
              (bs, err, s') \<Rightarrow>
                (c @ bs, (if err = Some EOF \<and> c @ bs \<noteq> [] then Some ErrUnexpectedEOF else err), s')))"

subsection \<open>Base64 (encoding/base64, StdEncoding.DecodeString)\<close>

text \<open>
  The standard alphabet with \<open>=\<close> padding.  Carriage returns and line feeds are
  skipped; any other character outside the alphabet, a last group of fewer than four
  characters, or anything after the padding is a \<open>CorruptInputError\<close>.  Go also
  returns the bytes decoded before the error; the only caller drops them, and so
  does this model.
\<close>

definition b64val :: "char \<Rightarrow> nat option" where
  "b64val c =
     (let n = (of_char c :: nat)
      in if 65 \<le> n \<and> n \<le> 90 then Some (n - 65)
         else if 97 \<le> n \<and> n \<le> 122 then Some (n - 71)
         else if 48 \<le> n \<and> n \<le> 57 then Some (n + 4)
         else if c = CHR ''+'' then Some 62
         else if c = CHR ''/'' then Some 63
         else None)"

fun decodeQuanta :: "string \<Rightarrow> byte list option" where
  "decodeQuanta [] = Some []"
| "decodeQuanta (a # b # c # d # rest) =
     (case (b64val a, b64val b) of
        (Some va, Some vb) \<Rightarrow>
          (if c = CHR ''=''
           then (if d = CHR ''='' \<and> rest = [] then Some [of_nat (va * 4 + vb div 16)] else None)
           else (case b64val c of
                   None \<Rightarrow> None
                 | Some vc \<Rightarrow>
                     (if d = CHR ''=''
                      then (if rest = []
                            then Some [of_nat (va * 4 + vb div 16), of_nat ((vb mod 16) * 16 + vc div 4)]
                            else None)
                      else (case b64val d of
                              None \<Rightarrow> None
                            | Some vd \<Rightarrow>
                                map_option
                                  (\<lambda>bs. of_nat (va * 4 + vb div 16) # of_nat ((vb mod 16) * 16 + vc div 4)
                                          # of_nat ((vc mod 4) * 64 + vd) # bs)
                                  (decodeQuanta rest)))))
      | _ \<Rightarrow> None)"
| "decodeQuanta _ = None"

definition DecodeString :: "string \<Rightarrow> byte list \<times> error option" where
  "DecodeString s =
     (case decodeQuanta (filter (\<lambda>c. c \<noteq> CHR 0x0A \<and> c \<noteq> CHR 0x0D) s) of
        None \<Rightarrow> ([], Some CorruptInputError)
      | Some bs \<Rightarrow> (bs, None))"

subsection \<open>Buffer (struct.go)\<close>

text \<open>
  The three fields of \<open>Buffer\<close> that the decoder reads or writes.  \<open>Extensions\<close>,
  \<open>Extras\<close> and \<open>Name\<close> are neither read nor written by it; the functions below take
  any extension of the record, which carries them along.
\<close>

record Buffer =
  URI :: string
  ByteLength :: uint32
  Data :: "byte list"

definition IsEmbeddedResource :: "'a Buffer_scheme \<Rightarrow> bool" where
  "IsEmbeddedResource b = HasPrefix (URI b) mimetypeApplicationOctet"

text \<open>
  \<open>marshalData\<close> returns \<open>Inl\<close> where the slice expression \<open>b.URI[startPos:]\<close> panics
  (the URI is the marker alone), otherwise \<open>Inr\<close> of Go's two results.
\<close>

definition marshalData :: "'a Buffer_scheme \<Rightarrow> error + (byte list \<times> error option)" where
  "marshalData b =
     (if \<not> IsEmbeddedResource b then Inr ([], None)
      else let startPos = length mimetypeApplicationOctet + 1
           in if length (URI b) < startPos then Inl PanicSliceBounds
              else (case DecodeString (drop startPos (URI b)) of
                      (sl, err) \<Rightarrow>
                        if length sl = 0 \<or> err \<noteq> None then Inr ([], err) else Inr (sl, None)))"

subsection \<open>Decoder (decoder.go)\<close>

record ReadQuotas =
  MaxBufferCount :: int
  MaxMemoryAllocation :: int

text \<open>
  What the decoder does to the outside is recorded in a log: each invocation of the
  callback and each \<open>Close\<close> of a stream the callback returned.
\<close>

datatype event = Invoked string | Closed string

text \<open>
  \<open>ReadResourceCallback\<close>: given the URI, a stream or none, and an error or none.
\<close>

type_synonym ReadResourceCallback = "string \<Rightarrow> stream option \<times> error option"

record Decoder =
  d_r :: stream
  d_cb :: ReadResourceCallback
  d_quotas :: ReadQuotas
  d_log :: "event list"

definition NewDecoder :: "stream \<Rightarrow> ReadResourceCallback \<Rightarrow> Decoder" where
  "NewDecoder rd cb =
     \<lparr>d_r = rd, d_cb = cb,
      d_quotas = \<lparr>MaxBufferCount = 8, MaxMemoryAllocation = 32 * 1024 * 1024\<rparr>,
      d_log = []\<rparr>"

definition SetQuotas :: "Decoder \<Rightarrow> ReadQuotas \<Rightarrow> Decoder" where
  "SetQuotas d q = d\<lparr>d_quotas := q\<rparr>"

definition validateGLBHeader :: "Decoder \<Rightarrow> glbHeader \<Rightarrow> error option" where
  "validateGLBHeader d header =
     (if uint (Length header) > MaxMemoryAllocation (d_quotas d) then Some ErrQuotaGLB
      else if chunk_Type (JSONHeader header) \<noteq> glbChunkJSON
              \<or> chunk_Length (JSONHeader header) + of_nat sizeof_pointer > Length header
           then Some ErrInvalidGLBJSONHeader
      else None)"

definition readGLBHeader :: "Decoder \<Rightarrow> glbHeader option \<times> error option \<times> Decoder" where
  "readGLBHeader d =
     (case Peek sizeof_glbHeader (d_r d) of
        (None, s) \<Rightarrow> (None, None, d\<lparr>d_r := s\<rparr>)
      | (Some chunk, s) \<Rightarrow>
          (let header = read_glbHeader chunk
           in if Magic header \<noteq> glbHeaderMagic then (None, None, d\<lparr>d_r := s\<rparr>)
              else (case Read s chunk of
                      (_, _, s') \<Rightarrow>
                        (Some header, validateGLBHeader d header, d\<lparr>d_r := s'\<rparr>))))"

definition chunkHeader :: "Decoder \<Rightarrow> chunkHeader option \<times> error option \<times> Decoder" where
  "chunkHeader d =
     (case ReadFull sizeof_chunkHeader (d_r d) of
        (bs, Some e, s) \<Rightarrow> (None, Some e, d\<lparr>d_r := s\<rparr>)
      | (bs, None, s) \<Rightarrow> (Some (read_chunkHeader bs), None, d\<lparr>d_r := s\<rparr>))"

definition validateBuffer :: "Decoder \<Rightarrow> 'a Buffer_scheme \<Rightarrow> error option" where
  "validateBuffer d buffer =
     (if ByteLength buffer = 0 then Some ErrInvalidByteLength
      else if uint (ByteLength buffer) > MaxMemoryAllocation (d_quotas d) then Some ErrQuotaBuffer
      else None)"

definition decodeBuffer ::
  "Decoder \<Rightarrow> 'a Buffer_scheme \<Rightarrow> error option \<times> 'a Buffer_scheme \<times> Decoder" where
  "decodeBuffer d buffer =
     (case validateBuffer d buffer of
        Some e \<Rightarrow> (Some e, buffer, d)
      | None \<Rightarrow>
          if URI buffer = [] then (Some ErrBufferWithoutURI, buffer, d)
          else if IsEmbeddedResource buffer
          then (case marshalData buffer of
                  Inl p \<Rightarrow> (Some p, buffer, d)
                | Inr (sl, err) \<Rightarrow> (err, buffer\<lparr>Data := sl\<rparr>, d))
          else (case validateBufferURI (URI buffer) of
                  Some e \<Rightarrow> (Some e, buffer, d)
                | None \<Rightarrow>
                    (let d1 = d\<lparr>d_log := d_log d @ [Invoked (URI buffer)]\<rparr>
                     in case d_cb d (URI buffer) of
                          (Some rc, None) \<Rightarrow>
                            (case Read rc (replicate (unat (ByteLength buffer)) 0) of
                               (dat, err, _) \<Rightarrow>
                                 (err, buffer\<lparr>Data := dat\<rparr>,
                                  d1\<lparr>d_log := d_log d1 @ [Closed (URI buffer)]\<rparr>))
                        | (_, err) \<Rightarrow> (err, buffer, d1))))"

definition decodeBinaryBuffer ::
  "Decoder \<Rightarrow> 'a Buffer_scheme \<Rightarrow> error option \<times> 'a Buffer_scheme \<times> Decoder" where
  "decodeBinaryBuffer d buffer =
     (case validateBuffer d buffer of
        Some e \<Rightarrow> (Some e, buffer, d)
      | None \<Rightarrow>
          (case chunkHeader d of
             (None, err, d1) \<Rightarrow> (err, buffer, d1)
           | (Some header, _, d1) \<Rightarrow>
               if chunk_Type header \<noteq> glbChunkBIN \<or> chunk_Length header < ByteLength buffer
               then (Some ErrInvalidGLBBINHeader, buffer, d1)
               else (case Read (d_r d1) (replicate (unat (ByteLength buffer)) 0) of
                       (dat, err, s) \<Rightarrow> (err, buffer\<lparr>Data := dat\<rparr>, d1\<lparr>d_r := s\<rparr>))))"

subsection \<open>Document and Decode\<close>

text \<open>
  Of \<open>Document\<close> the decoder touches \<open>Buffers\<close> only.  The JSON decoder of the
  standard library is a parameter \<open>jd\<close>: given the byte limit of the
  \<open>io.LimitedReader\<close> (none for plain JSON), the reader and the document, it returns
  its error, the document as it left it, and the reader as it left it.
\<close>

record 'b Document =
  Buffers :: "'b list"

type_synonym ('a, 'c) json_Decoder =
  "nat option \<Rightarrow> stream \<Rightarrow> ('a Buffer_scheme, 'c) Document_scheme
     \<Rightarrow> error option \<times> ('a Buffer_scheme, 'c) Document_scheme \<times> stream"

definition decodeDocument ::
  "('a, 'c) json_Decoder \<Rightarrow> Decoder \<Rightarrow> ('a Buffer_scheme, 'c) Document_scheme
     \<Rightarrow> bool \<times> error option \<times> ('a Buffer_scheme, 'c) Document_scheme \<times> Decoder" where
  "decodeDocument jd d doc =
     (case readGLBHeader d of
        (_, Some e, d1) \<Rightarrow> (False, Some e, doc, d1)
      | (glbHeader, None, d1) \<Rightarrow>
          (let limit = map_option (\<lambda>h. unat (chunk_Length (JSONHeader h))) glbHeader;
               isBinary = (glbHeader \<noteq> None)
           in case jd limit (d_r d1) doc of
                (err, doc1, s) \<Rightarrow>
                  (isBinary,
                   (if err = None \<and> int (length (Buffers doc1)) > MaxBufferCount (d_quotas d)
                    then Some ErrQuotaBufferCount else err),
                   doc1, d1\<lparr>d_r := s\<rparr>)))"

text \<open>The loop of \<open>Decode\<close> over the buffers from \<open>externalBufferIndex\<close> on: it stops at
  the first error.\<close>

fun decodeBuffers ::
  "Decoder \<Rightarrow> 'a Buffer_scheme list \<Rightarrow> error option \<times> 'a Buffer_scheme list \<times> Decoder" where
  "decodeBuffers d [] = (None, [], d)"
| "decodeBuffers d (b # bs) =
     (case decodeBuffer d b of
        (Some e, b', d') \<Rightarrow> (Some e, b' # bs, d')
      | (None, b', d') \<Rightarrow>
          (case decodeBuffers d' bs of (err, bs', d'') \<Rightarrow> (err, b' # bs', d'')))"

text \<open>Lines 78 to 90 of \<open>Decode\<close>: the GLB buffer first, when there is one, then the
  loop.\<close>

definition loadBuffers ::
  "bool \<Rightarrow> Decoder \<Rightarrow> 'a Buffer_scheme list \<Rightarrow> error option \<times> 'a Buffer_scheme list \<times> Decoder" where
  "loadBuffers isBinary d bs =
     (case bs of
        b # rest \<Rightarrow>
          if isBinary
          then (case decodeBinaryBuffer d b of
                  (Some e, b', d') \<Rightarrow> (Some e, b' # rest, d')
                | (None, b', d') \<Rightarrow>
                    (case decodeBuffers d' rest of (err, bs', d'') \<Rightarrow> (err, b' # bs', d'')))
          else decodeBuffers d bs
      | [] \<Rightarrow> decodeBuffers d bs)"

definition Decode ::
  "('a, 'c) json_Decoder \<Rightarrow> Decoder \<Rightarrow> ('a Buffer_scheme, 'c) Document_scheme
     \<Rightarrow> error option \<times> ('a Buffer_scheme, 'c) Document_scheme \<times> Decoder" where
  "Decode jd d doc =
     (case decodeDocument jd d doc of
        (isBinary, Some e, doc1, d1) \<Rightarrow> (Some e, doc1, d1)
      | (isBinary, None, doc1, d1) \<Rightarrow>
          if int (length (Buffers doc1)) > MaxBufferCount (d_quotas d1)
          then (Some ErrQuotaBufferCount, doc1, d1)
          else (case loadBuffers isBinary d1 (Buffers doc1) of
                  (err, bs, d2) \<Rightarrow> (err, doc1\<lparr>Buffers := bs\<rparr>, d2)))"

section \<open>The typed model (struct.go)\<close>

subsection \<open>float64\<close>

text \<open>
  A \<open>float64\<close> is its IEEE 754 bit pattern: sign, 11 bits of exponent, 52 bits of
  mantissa.  \<open>f64_eq\<close> is Go's \<open>==\<close> on floats: a NaN equals nothing, and the two
  zeros are equal.  Go compares arrays element by element (\<open>array_eq\<close>); an array
  \<open>[n]float64\<close> is a list of length \<open>n\<close>.
\<close>

type_synonym float64 = "64 word"

definition f64_1 :: float64 where
  "f64_1 = 0x3FF0000000000000"

definition f64_half :: float64 where
  "f64_half = 0x3FE0000000000000"

definition f64_exp :: "float64 \<Rightarrow> nat" where
  "f64_exp w = unat (drop_bit 52 w AND 0x7FF)"

definition f64_man :: "float64 \<Rightarrow> nat" where
  "f64_man w = unat (w AND 0xFFFFFFFFFFFFF)"

definition f64_neg :: "float64 \<Rightarrow> bool" where
  "f64_neg w = bit w 63"

definition IsNaN :: "float64 \<Rightarrow> bool" where
  "IsNaN w = (f64_exp w = 0x7FF \<and> f64_man w \<noteq> 0)"

definition IsInf :: "float64 \<Rightarrow> bool" where
  "IsInf w = (f64_exp w = 0x7FF \<and> f64_man w = 0)"

definition f64_eq :: "float64 \<Rightarrow> float64 \<Rightarrow> bool" where
  "f64_eq a b =
     (\<not> IsNaN a \<and> \<not> IsNaN b
      \<and> (a = b \<or> (f64_exp a = 0 \<and> f64_man a = 0 \<and> f64_exp b = 0 \<and> f64_man b = 0)))"

definition array_eq :: "float64 list \<Rightarrow> float64 list \<Rightarrow> bool" where
  "array_eq a b = list_all2 f64_eq a b"

text \<open>
  The text encoding/json writes for a finite float is the shortest decimal that
  reads back as the same float.  For a float whose value is a whole number below
  \<open>2 ^ 53\<close> in magnitude (\<open>f64_nat\<close>) that is the number in decimal, with a minus sign
  when the sign bit is set (so the negative zero is written \<open>-0\<close>).  For every other
  float the text is left to the parameter \<open>ff\<close>.
\<close>

definition f64_nat :: "float64 \<Rightarrow> nat option" where
  "f64_nat w =
     (let e = f64_exp w; m = f64_man w
      in if e = 0 then (if m = 0 then Some 0 else None)
         else if e < 1023 \<or> 1075 < e then None
         else if (2 ^ 52 + m) mod 2 ^ (1075 - e) = 0 then Some ((2 ^ 52 + m) div 2 ^ (1075 - e))
         else None)"

fun decimal :: "nat \<Rightarrow> string" where
  "decimal n =
     (if n < 10 then [''0123456789'' ! n]
      else decimal (n div 10) @ [''0123456789'' ! (n mod 10)])"

definition floatText :: "(float64 \<Rightarrow> string) \<Rightarrow> float64 \<Rightarrow> string" where
  "floatText ff w =
     (case f64_nat w of
        Some n \<Rightarrow> (if f64_neg w then ''-'' else []) @ decimal n
      | None \<Rightarrow> ff w)"

subsection \<open>JSON text as encoding/json writes it\<close>

text \<open>
  Strings: the quote and the backslash are escaped with a backslash; backspace,
  form feed, line feed, carriage return and tab are written as a backslash and
  \<open>b\<close>, \<open>f\<close>, \<open>n\<close>, \<open>r\<close>, \<open>t\<close>; the other control
  characters and \<open><\<close>, \<open>>\<close>, \<open>&\<close> as a backslash, \<open>u00\<close> and two hexadecimal digits;
  the line separators U+2028 and U+2029 as a backslash and \<open>u2028\<close>, \<open>u2029\<close>; every
  other byte is copied (the string is taken to be valid UTF-8).
\<close>

definition hex_digit :: "nat \<Rightarrow> char" where
  "hex_digit n = ''0123456789abcdef'' ! n"

fun escape :: "string \<Rightarrow> string" where
  "escape [] = []"
| "escape (c # cs) =
     (let n = (of_char c :: nat)
      in if take 3 (c # cs) = [CHR 0xE2, CHR 0x80, CHR 0xA8] then [CHR 0x5C] @ ''u2028'' @ escape (drop 2 cs)
         else if take 3 (c # cs) = [CHR 0xE2, CHR 0x80, CHR 0xA9] then [CHR 0x5C] @ ''u2029'' @ escape (drop 2 cs)
         else if c = CHR 0x22 \<or> c = CHR 0x5C then [CHR 0x5C, c] @ escape cs
         else if c = CHR 0x08 then [CHR 0x5C] @ ''b'' @ escape cs
         else if c = CHR 0x0C then [CHR 0x5C] @ ''f'' @ escape cs
         else if c = CHR 0x0A then [CHR 0x5C] @ ''n'' @ escape cs
         else if c = CHR 0x0D then [CHR 0x5C] @ ''r'' @ escape cs
         else if c = CHR 0x09 then [CHR 0x5C] @ ''t'' @ escape cs
         else if n < 0x20 \<or> c = CHR ''<'' \<or> c = CHR ''>'' \<or> c = CHR ''&''
         then [CHR 0x5C] @ ''u00'' @ [hex_digit (n div 16), hex_digit (n mod 16)] @ escape cs
         else c # escape cs)"

definition quote :: "string \<Rightarrow> string" where
  "quote s = [CHR 0x22] @ escape s @ [CHR 0x22]"

fun join :: "string list \<Rightarrow> string" where
  "join [] = []"
| "join [x] = x"
| "join (x # y # ys) = x @ '','' @ join (y # ys)"

text \<open>
  The values an \<open>interface{}\<close> holds after JSON decoding (\<open>Extras\<close>, and the payload
  of an extension as far as its encoding goes): \<open>nil\<close>, \<open>bool\<close>, \<open>float64\<close>,
  \<open>string\<close>, \<open>[]interface{}\<close> and \<open>map[string]interface{}\<close>.  A map is the list of
  its entries in the order encoding/json writes them, which is the order of the
  keys.  Marshalling fails on a NaN or an infinity (\<open>finite_jvalue\<close>).
\<close>

datatype jvalue =
  JNull | JBool bool | JNum float64 | JStr string | JArr "jvalue list" | JObj "(string \<times> jvalue) list"

fun encode :: "(float64 \<Rightarrow> string) \<Rightarrow> jvalue \<Rightarrow> string" where
  "encode ff JNull = ''null''"
| "encode ff (JBool b) = (if b then ''true'' else ''false'')"
| "encode ff (JNum x) = floatText ff x"
| "encode ff (JStr s) = quote s"
| "encode ff (JArr vs) = ''['' @ join (map (encode ff) vs) @ '']''"
| "encode ff (JObj ms) = ''{'' @ join (map (\<lambda>(k, v). quote k @ '':'' @ encode ff v) ms) @ ''}''"

fun finite_jvalue :: "jvalue \<Rightarrow> bool" where
  "finite_jvalue (JNum x) = (\<not> IsNaN x \<and> \<not> IsInf x)"
| "finite_jvalue (JArr vs) = list_all finite_jvalue vs"
| "finite_jvalue (JObj ms) = list_all (\<lambda>(k, v). finite_jvalue v) ms"
| "finite_jvalue _ = True"

definition member :: "string \<Rightarrow> string \<Rightarrow> string" where
  "member key text = quote key @ '':'' @ text"

definition floats :: "(float64 \<Rightarrow> string) \<Rightarrow> float64 list \<Rightarrow> string" where
  "floats ff xs = ''['' @ join (map (floatText ff) xs) @ '']''"

definition uints :: "uint32 list \<Rightarrow> string" where
  "uints xs = ''['' @ join (map (\<lambda>i. decimal (unat i)) xs) @ '']''"

definition opt_uint :: "string \<Rightarrow> uint32 option \<Rightarrow> string list" where
  "opt_uint key p = (case p of None \<Rightarrow> [] | Some i \<Rightarrow> [member key (decimal (unat i))])"

definition finite_floats :: "float64 list \<Rightarrow> bool" where
  "finite_floats xs = list_all (\<lambda>x. \<not> IsNaN x \<and> \<not> IsInf x) xs"

subsection \<open>removeProperty and sanitizeJSON\<close>

text \<open>\<open>bytes.Replace s old new 1\<close>: the first occurrence of \<open>old\<close> in \<open>s\<close> is replaced
  by \<open>new\<close>; without an occurrence \<open>s\<close> is returned.\<close>

fun Replace1 :: "'a list \<Rightarrow> 'a list \<Rightarrow> 'a list \<Rightarrow> 'a list" where
  "Replace1 [] old new = (if old = [] then new else [])"
| "Replace1 (c # cs) old new =
     (if HasPrefix (c # cs) old then new @ drop (length old) (c # cs)
      else c # Replace1 cs old new)"

definition removeProperty :: "string \<Rightarrow> string \<Rightarrow> string" where
  "removeProperty str b = Replace1 (Replace1 b str []) '',,'' '',''"

definition sanitizeJSON :: "string \<Rightarrow> string" where
  "sanitizeJSON b = Replace1 (Replace1 b ''{,'' ''{'') '',}'' ''}''"

subsection \<open>Node\<close>

text \<open>
  A pointer field is an option.  \<open>Extensions\<close> lists, in the order of the keys, the
  JSON value each extension encodes to.
\<close>

record Node =
  Extensions :: "(string \<times> jvalue) list"
  Extras :: "jvalue option"
  Name :: string
  Camera :: "uint32 option"
  Children :: "uint32 list"
  Skin :: "uint32 option"
  Matrix :: "float64 list"
  Mesh :: "uint32 option"
  Rotation :: "float64 list"
  Scale :: "float64 list"
  Translation :: "float64 list"
  Weights :: "float64 list"

text \<open>Modelled from the spec: the default transforms \<open>DefaultMatrix\<close>,
  \<open>DefaultRotation\<close>, \<open>DefaultScale\<close> and \<open>DefaultTranslation\<close>, which the sources use
  and do not declare: the identity matrix, the quaternion \<open>(0,0,0,1)\<close>, the scale
  \<open>(1,1,1)\<close> and the translation \<open>(0,0,0)\<close>.\<close>

definition DefaultMatrix :: "float64 list" where
  "DefaultMatrix = [f64_1, 0, 0, 0, 0, f64_1, 0, 0, 0, 0, f64_1, 0, 0, 0, 0, f64_1]"

definition DefaultRotation :: "float64 list" where
  "DefaultRotation = [0, 0, 0, f64_1]"

definition DefaultScale :: "float64 list" where
  "DefaultScale = [f64_1, f64_1, f64_1]"

definition DefaultTranslation :: "float64 list" where
  "DefaultTranslation = [0, 0, 0]"

text \<open>Modelled from the spec: the sentinels \<open>emptyMatrix\<close>, \<open>emptyRotation\<close> and
  \<open>emptyScale\<close>, which the sources use and do not declare: the all-zero arrays, the
  values of fields that were never initialised.\<close>

definition emptyMatrix :: "float64 list" where
  "emptyMatrix = [0, 0, 0, 0, 0, 0, 0, 0, 0, 0, 0, 0, 0, 0, 0, 0]"

definition emptyRotation :: "float64 list" where
  "emptyRotation = [0, 0, 0, 0]"

definition emptyScale :: "float64 list" where
  "emptyScale = [0, 0, 0]"

text \<open>The zero value of \<open>Node\<close> (Go's \<open>Node{}\<close>).\<close>

definition Node_zero :: Node where
  "Node_zero =
     \<lparr>Extensions = [], Extras = None, Name = [], Camera = None, Children = [], Skin = None,
      Matrix = emptyMatrix, Mesh = None, Rotation = emptyRotation, Scale = emptyScale,
      Translation = [0, 0, 0], Weights = []\<rparr>"

text \<open>
  \<open>json.Marshal\<close> of the alias struct: the fields in the order of their declaration,
  a field tagged \<open>omitempty\<close> left out when it is empty (a nil pointer or interface,
  an empty string, slice or map); the four transform arrays are always written.
  The result is an error when some float is a NaN or an infinity.
\<close>

definition Node_finite :: "Node \<Rightarrow> bool" where
  "Node_finite n =
     (list_all (\<lambda>(k, v). finite_jvalue v) (Extensions n)
      \<and> (case Extras n of None \<Rightarrow> True | Some v \<Rightarrow> finite_jvalue v)
      \<and> finite_floats (Matrix n) \<and> finite_floats (Rotation n) \<and> finite_floats (Scale n)
      \<and> finite_floats (Translation n) \<and> finite_floats (Weights n))"

definition Node_head :: "(float64 \<Rightarrow> string) \<Rightarrow> Node \<Rightarrow> string list" where
  "Node_head ff n =
     (if Extensions n = [] then [] else [member ''extensions'' (encode ff (JObj (Extensions n)))])
     @ (case Extras n of None \<Rightarrow> [] | Some v \<Rightarrow> [member ''extras'' (encode ff v)])
     @ (if Name n = [] then [] else [member ''name'' (quote (Name n))])
     @ opt_uint ''camera'' (Camera n)
     @ (if Children n = [] then [] else [member ''children'' (uints (Children n))])
     @ opt_uint ''skin'' (Skin n)"

definition Node_weights :: "(float64 \<Rightarrow> string) \<Rightarrow> Node \<Rightarrow> string list" where
  "Node_weights ff n = (if Weights n = [] then [] else [member ''weights'' (floats ff (Weights n))])"

definition json_Marshal_Node :: "(float64 \<Rightarrow> string) \<Rightarrow> Node \<Rightarrow> error + string" where
  "json_Marshal_Node ff n =
     (if \<not> Node_finite n then Inl UnsupportedValueError
      else Inr (''{'' @ join (Node_head ff n
                  @ [member ''matrix'' (floats ff (Matrix n))]
                  @ opt_uint ''mesh'' (Mesh n)
                  @ [member ''rotation'' (floats ff (Rotation n)),
                     member ''scale'' (floats ff (Scale n)),
                     member ''translation'' (floats ff (Translation n))]
                  @ Node_weights ff n) @ ''}''))"

definition Node_MarshalJSON :: "(float64 \<Rightarrow> string) \<Rightarrow> Node \<Rightarrow> error + string" where
  "Node_MarshalJSON ff n =
     (case json_Marshal_Node ff n of
        Inl err \<Rightarrow> Inl err
      | Inr out \<Rightarrow>
          (let out1 = (if array_eq (Matrix n) DefaultMatrix
                       then removeProperty ''\"matrix\":[1,0,0,0,0,1,0,0,0,0,1,0,0,0,0,1]'' out
                       else if array_eq (Matrix n) emptyMatrix
                       then removeProperty ''\"matrix\":[0,0,0,0,0,0,0,0,0,0,0,0,0,0,0,0]'' out
                       else out);
               out2 = (if array_eq (Rotation n) DefaultRotation
                       then removeProperty ''\"rotation\":[0,0,0,1]'' out1
                       else if array_eq (Rotation n) emptyRotation
                       then removeProperty ''\"rotation\":[0,0,0,0]'' out1
                       else out1);
               out3 = (if array_eq (Scale n) DefaultScale
                       then removeProperty ''\"scale\":[1,1,1]'' out2
                       else if array_eq (Scale n) emptyScale
                       then removeProperty ''\"scale\":[0,0,0]'' out2
                       else out2);
               out4 = (if array_eq (Translation n) DefaultTranslation
                       then removeProperty ''\"translation\":[0,0,0]'' out3
                       else out3)
           in Inr (sanitizeJSON out4)))"

text \<open>
  The encoding the specification asks for, written from its words: the same fields,
  where for each transform field it is decided before anything is written whether
  the field is left out (it equals its default or, for matrix, rotation and scale,
  the all-zero sentinel).
\<close>

definition Node_MarshalJSON_structured :: "(float64 \<Rightarrow> string) \<Rightarrow> Node \<Rightarrow> error + string" where
  "Node_MarshalJSON_structured ff n =
     (if \<not> Node_finite n then Inl UnsupportedValueError
      else Inr (''{'' @ join (Node_head ff n
                  @ (if array_eq (Matrix n) DefaultMatrix \<or> array_eq (Matrix n) emptyMatrix then []
                     else [member ''matrix'' (floats ff (Matrix n))])
                  @ opt_uint ''mesh'' (Mesh n)
                  @ (if array_eq (Rotation n) DefaultRotation \<or> array_eq (Rotation n) emptyRotation then []
                     else [member ''rotation'' (floats ff (Rotation n))])
                  @ (if array_eq (Scale n) DefaultScale \<or> array_eq (Scale n) emptyScale then []
                     else [member ''scale'' (floats ff (Scale n))])
                  @ (if array_eq (Translation n) DefaultTranslation then []
                     else [member ''translation'' (floats ff (Translation n))])
                  @ Node_weights ff n) @ ''}''))"

subsection \<open>UnmarshalJSON of the types with defaults\<close>

text \<open>
  \<open>json.Unmarshal data &tmp\<close> is a parameter: given the data and the value \<open>tmp\<close>
  holds, it returns its error and the value it leaves in \<open>tmp\<close>, which it may have
  changed in part when it fails.  \<open>tmp\<close> is a fresh value: no pointer of the receiver
  is reachable from it.
\<close>

type_synonym 'a json_Unmarshal = "byte list \<Rightarrow> 'a \<Rightarrow> error option \<times> 'a"

definition Node_UnmarshalJSON :: "Node json_Unmarshal \<Rightarrow> Node \<Rightarrow> byte list \<Rightarrow> error option \<times> Node" where
  "Node_UnmarshalJSON unmarshal n data =
     (case unmarshal data
             (Node_zero\<lparr>Matrix := DefaultMatrix, Rotation := DefaultRotation, Scale := DefaultScale\<rparr>) of
        (err, tmp) \<Rightarrow> if err = None then (err, tmp) else (err, n))"

record TextureInfo =
  TI_Extensions :: "(string \<times> jvalue) list"
  TI_Extras :: "jvalue option"
  TI_Index :: uint32
  TI_TexCoord :: uint32

record NormalTexture =
  NT_Extensions :: "(string \<times> jvalue) list"
  NT_Extras :: "jvalue option"
  NT_Index :: "uint32 option"
  NT_TexCoord :: uint32
  NT_Scale :: "float64 option"

record OcclusionTexture =
  OT_Extensions :: "(string \<times> jvalue) list"
  OT_Extras :: "jvalue option"
  OT_Index :: "uint32 option"
  OT_TexCoord :: uint32
  OT_Strength :: "float64 option"

record RGBA =
  RGBA_R :: float64
  RGBA_G :: float64
  RGBA_B :: float64
  RGBA_A :: float64

definition NewRGBA :: RGBA where
  "NewRGBA = \<lparr>RGBA_R = f64_1, RGBA_G = f64_1, RGBA_B = f64_1, RGBA_A = f64_1\<rparr>"

record PBRMetallicRoughness =
  PBR_Extensions :: "(string \<times> jvalue) list"
  PBR_Extras :: "jvalue option"
  BaseColorFactor :: "RGBA option"
  BaseColorTexture :: "TextureInfo option"
  MetallicFactor :: "float64 option"
  RoughnessFactor :: "float64 option"
  MetallicRoughnessTexture :: "TextureInfo option"

text \<open>The type \<open>AlphaMode\<close> is declared outside the two files; its tag bounds it by 2,
  and it is taken as an 8-bit unsigned integer, of which only the zero value is
  used here.\<close>

record Material =
  M_Extensions :: "(string \<times> jvalue) list"
  M_Extras :: "jvalue option"
  M_Name :: string
  M_PBRMetallicRoughness :: "PBRMetallicRoughness option"
  M_NormalTexture :: "NormalTexture option"
  M_OcclusionTexture :: "OcclusionTexture option"
  EmissiveTexture :: "TextureInfo option"
  EmissiveFactor :: "float64 list"
  AlphaMode :: "8 word"
  AlphaCutoff :: "float64 option"
  DoubleSided :: bool

definition Material_zero :: Material where
  "Material_zero =
     \<lparr>M_Extensions = [], M_Extras = None, M_Name = [], M_PBRMetallicRoughness = None,
      M_NormalTexture = None, M_OcclusionTexture = None, EmissiveTexture = None,
      EmissiveFactor = [0, 0, 0], AlphaMode = 0, AlphaCutoff = None, DoubleSided = False\<rparr>"

definition NormalTexture_zero :: NormalTexture where
  "NormalTexture_zero =
     \<lparr>NT_Extensions = [], NT_Extras = None, NT_Index = None, NT_TexCoord = 0, NT_Scale = None\<rparr>"

definition OcclusionTexture_zero :: OcclusionTexture where
  "OcclusionTexture_zero =
     \<lparr>OT_Extensions = [], OT_Extras = None, OT_Index = None, OT_TexCoord = 0, OT_Strength = None\<rparr>"

definition PBRMetallicRoughness_zero :: PBRMetallicRoughness where
  "PBRMetallicRoughness_zero =
     \<lparr>PBR_Extensions = [], PBR_Extras = None, BaseColorFactor = None, BaseColorTexture = None,
      MetallicFactor = None, RoughnessFactor = None, MetallicRoughnessTexture = None\<rparr>"

definition Material_UnmarshalJSON ::
  "Material json_Unmarshal \<Rightarrow> Material \<Rightarrow> byte list \<Rightarrow> error option \<times> Material" where
  "Material_UnmarshalJSON unmarshal m data =
     (case unmarshal data (Material_zero\<lparr>AlphaCutoff := Some f64_half\<rparr>) of
        (err, tmp) \<Rightarrow> if err = None then (err, tmp) else (err, m))"

definition NormalTexture_UnmarshalJSON ::
  "NormalTexture json_Unmarshal \<Rightarrow> NormalTexture \<Rightarrow> byte list \<Rightarrow> error option \<times> NormalTexture" where
  "NormalTexture_UnmarshalJSON unmarshal n data =
     (case unmarshal data (NormalTexture_zero\<lparr>NT_Scale := Some f64_1\<rparr>) of
        (err, tmp) \<Rightarrow> if err = None then (err, tmp) else (err, n))"

definition OcclusionTexture_UnmarshalJSON ::
  "OcclusionTexture json_Unmarshal \<Rightarrow> OcclusionTexture \<Rightarrow> byte list
     \<Rightarrow> error option \<times> OcclusionTexture" where
  "OcclusionTexture_UnmarshalJSON unmarshal oc data =
     (case unmarshal data (OcclusionTexture_zero\<lparr>OT_Strength := Some f64_1\<rparr>) of
        (err, tmp) \<Rightarrow> if err = None then (err, tmp) else (err, oc))"

definition PBRMetallicRoughness_UnmarshalJSON ::
  "PBRMetallicRoughness json_Unmarshal \<Rightarrow> PBRMetallicRoughness \<Rightarrow> byte list
     \<Rightarrow> error option \<times> PBRMetallicRoughness" where
  "PBRMetallicRoughness_UnmarshalJSON unmarshal p data =
     (case unmarshal data
             (PBRMetallicRoughness_zero\<lparr>BaseColorFactor := Some NewRGBA,
                MetallicFactor := Some f64_1, RoughnessFactor := Some f64_1\<rparr>) of
        (err, tmp) \<Rightarrow> if err = None then (err, tmp) else (err, p))"

subsection \<open>Extensions\<close>

text \<open>
  A value of the \<open>Extensions\<close> map is the raw payload (\<open>json.RawMessage\<close>) or the
  object a registered factory decoded.  The registry \<open>extensions\<close> maps a key to its
  factory; a factory is given here together with the \<open>json.Unmarshal\<close> into the
  instance it makes: from the payload, the decoded instance or an error.  The
  parameter \<open>unmarshal\<close> is \<open>json.Unmarshal\<close> into the envelope: its error, or the
  entries of the map in the order the \<open>range\<close> loop visits them (each key once).
  Giving a fresh map to an \<open>ext\<close> without entries does not change what it holds.
\<close>

datatype 'x extension = RawMessage "byte list" | Decoded 'x

type_synonym 'x Extensions = "string \<rightharpoonup> 'x extension"

type_synonym 'x registry = "string \<rightharpoonup> (byte list \<Rightarrow> error + 'x)"

definition RegisterExtension ::
  "'x registry \<Rightarrow> string \<Rightarrow> (byte list \<Rightarrow> error + 'x) \<Rightarrow> 'x registry" where
  "RegisterExtension extensions key f = extensions(key \<mapsto> f)"

definition store_extension ::
  "'x registry \<Rightarrow> 'x Extensions \<Rightarrow> string \<times> byte list \<Rightarrow> 'x Extensions" where
  "store_extension extensions ext kv =
     (case kv of
        (key, value) \<Rightarrow>
          (case extensions key of
             Some extFactory \<Rightarrow>
               (case extFactory value of
                  Inl err \<Rightarrow> ext(key \<mapsto> RawMessage value)
                | Inr n \<Rightarrow> ext(key \<mapsto> Decoded n))
           | None \<Rightarrow> ext(key \<mapsto> RawMessage value)))"

definition Extensions_UnmarshalJSON ::
  "(byte list \<Rightarrow> error + (string \<times> byte list) list) \<Rightarrow> 'x registry \<Rightarrow> 'x Extensions \<Rightarrow> byte list
     \<Rightarrow> error option \<times> 'x Extensions" where
  "Extensions_UnmarshalJSON unmarshal extensions ext data =
     (case unmarshal data of
        Inl err \<Rightarrow> (Some err, ext)
      | Inr raw \<Rightarrow> (None, foldl (store_extension extensions) ext raw))"

section \<open>Concrete inputs\<close>

subsection \<open>Inputs of the closed theorems\<close>

text \<open>
  Inputs for the closed theorems below.  \<open>jd_yielding bs\<close> stands for the JSON decoder
  on a text whose \<open>buffers\<close> array decodes to \<open>bs\<close>: it consumes the JSON chunk (all
  the input, for plain JSON) and stores \<open>bs\<close>.  \<open>glb_head len json\<close> is the 12-byte
  GLB header with total length \<open>len\<close> followed by the JSON chunk, \<open>bin_head n\<close> the
  header of a binary chunk of \<open>n\<close> bytes (lengths below 256).
\<close>

definition bytes_of :: "string \<Rightarrow> byte list" where
  "bytes_of s = map (\<lambda>c. of_nat (of_char c)) s"

definition jd_yielding :: "'a Buffer_scheme list \<Rightarrow> ('a, 'c) json_Decoder" where
  "jd_yielding bs limit s doc =
     (None, doc\<lparr>Buffers := bs\<rparr>,
      (case limit of None \<Rightarrow> [] | Some n \<Rightarrow> (case ReadFull n s of (_, _, s') \<Rightarrow> s')))"

definition glb_head :: "nat \<Rightarrow> string \<Rightarrow> byte list" where
  "glb_head len json =
     [0x67, 0x6C, 0x54, 0x46, 2, 0, 0, 0, of_nat len, 0, 0, 0,
      of_nat (length json), 0, 0, 0, 0x4A, 0x53, 0x4F, 0x4E] @ bytes_of json"

definition bin_head :: "nat \<Rightarrow> byte list" where
  "bin_head n = [of_nat n, 0, 0, 0, 0x42, 0x49, 0x4E, 0]"

definition no_callback :: ReadResourceCallback where
  "no_callback uri = (None, Some (IOError 0))"

text \<open>
  \<open>jd_reading text bs\<close> stands for the JSON decoder on the one text \<open>text\<close>, whose
  \<open>buffers\<close> array decodes to \<open>bs\<close>: it reads the JSON chunk (all the input, for
  plain JSON), stores \<open>bs\<close> when what it read is \<open>text\<close>, and fails otherwise.
  \<open>plain text\<close> is an input that delivers \<open>text\<close> in one block.
\<close>

fun drain :: "stream \<Rightarrow> byte list" where
  "drain [] = []"
| "drain (Fails e # s) = []"
| "drain (Bytes c # s) = c @ drain s"

definition jd_reading :: "string \<Rightarrow> 'a Buffer_scheme list \<Rightarrow> ('a, 'c) json_Decoder" where
  "jd_reading text bs limit s doc =
     (case (case limit of
              None \<Rightarrow> (drain s, [])
            | Some n \<Rightarrow> (case ReadFull n s of (got, _, s') \<Rightarrow> (got, s'))) of
        (got, s') \<Rightarrow>
          if got = bytes_of text then (None, doc\<lparr>Buffers := bs\<rparr>, s')
          else (Some (JSONError 0), doc, s'))"

definition plain :: "string \<Rightarrow> stream" where
  "plain text = [Bytes (bytes_of text)]"

definition one_delivery :: ReadResourceCallback where
  "one_delivery uri = (Some [Bytes [1, 2, 3, 4]], None)"

definition nine_buffers :: "Buffer list" where
  "nine_buffers = replicate 9 \<lparr>URI = ''a.bin'', ByteLength = 1, Data = []\<rparr>"

definition nine_json :: string where
  "nine_json =
     ''{\"buffers\":['' @
     ''{\"uri\":\"a.bin\",\"byteLength\":1},'' @
     ''{\"uri\":\"a.bin\",\"byteLength\":1},'' @
     ''{\"uri\":\"a.bin\",\"byteLength\":1},'' @
     ''{\"uri\":\"a.bin\",\"byteLength\":1},'' @
     ''{\"uri\":\"a.bin\",\"byteLength\":1},'' @
     ''{\"uri\":\"a.bin\",\"byteLength\":1},'' @
     ''{\"uri\":\"a.bin\",\"byteLength\":1},'' @
     ''{\"uri\":\"a.bin\",\"byteLength\":1},'' @
     ''{\"uri\":\"a.bin\",\"byteLength\":1}]}''"

definition a_buffer :: Buffer where
  "a_buffer = \<lparr>URI = ''a.bin'', ByteLength = 4, Data = []\<rparr>"

definition abc_buffer :: Buffer where
  "abc_buffer = \<lparr>URI = ''data:application/octet-stream;base64,QUJD'', ByteLength = 3, Data = []\<rparr>"

definition secret_buffer :: Buffer where
  "secret_buffer = \<lparr>URI = ''../secret.bin'', ByteLength = 4, Data = []\<rparr>"

text \<open>The JSON texts of the documents with these buffers.\<close>

definition abc_json :: string where
  "abc_json = ''{\"buffers\":[{\"uri\":\"data:application/octet-stream;base64,QUJD\",\"byteLength\":3}]}''"

definition abc_cut_json :: string where
  "abc_cut_json = ''{\"buffers\":[{\"uri\":\"data:application/octet-stream;base64,QUJ\",\"byteLength\":3}]}''"

definition abc_empty_json :: string where
  "abc_empty_json = ''{\"buffers\":[{\"uri\":\"data:application/octet-stream;base64,\",\"byteLength\":3}]}''"

definition abc_zero_json :: string where
  "abc_zero_json = ''{\"buffers\":[{\"uri\":\"data:application/octet-stream;base64,QUJD\",\"byteLength\":0}]}''"

definition two_json :: string where
  "two_json = ''{\"buffers\":[{\"uri\":\"a.bin\",\"byteLength\":4},{\"uri\":\"../secret.bin\",\"byteLength\":4}]}''"

definition secret_json :: string where
  "secret_json = ''{\"buffers\":[{\"uri\":\"../secret.bin\",\"byteLength\":4}]}''"

definition secret_big_json :: string where
  "secret_big_json = ''{\"buffers\":[{\"uri\":\"../secret.bin\",\"byteLength\":67108864}]}''"


definition node_default :: Node where
  "node_default = Node_zero\<lparr>Matrix := DefaultMatrix, Rotation := DefaultRotation, Scale := DefaultScale\<rparr>"

definition node_extras_rotation :: Node where
  "node_extras_rotation =
     node_default\<lparr>Extras := Some (JObj [(''rotation'', JArr [JNum 0, JNum 0, JNum 0, JNum f64_1])])\<rparr>"

definition node_name_commas :: Node where
  "node_name_commas = node_default\<lparr>Name := ''a,,b''\<rparr>"

definition node_extras_scale :: Node where
  "node_extras_scale =
     node_default\<lparr>Extras := Some (JObj [(''scale'', JArr [JNum f64_1, JNum f64_1, JNum f64_1])])\<rparr>"

definition node_name_brace :: Node where
  "node_name_brace = node_default\<lparr>Name := ''x,}''\<rparr>"

text \<open>
  An extensions object with two keys.  \<open>envelope_of\<close> stands for \<open>json.Unmarshal\<close>
  into the envelope on that one text: the two entries with their payloads as they
  stand in the text, and an error on any other data.  The registry holds one factory,
  for \<open>KHR_lights\<close>, whose type wants a number under \<open>a\<close>: the payload \<open>{"a":1}\<close>
  decodes to \<open>1\<close>, and on the payload \<open>{"a":"x"}\<close> its decoding fails (no other
  payload is given to it here).
\<close>

definition extensions_json :: string where
  "extensions_json = ''{\"KHR_lights\":{\"a\":\"x\"},\"XYZ_foo\":{\"a\":1}}''"

definition two_extensions :: "(string \<times> byte list) list" where
  "two_extensions =
     [(''KHR_lights'', bytes_of ''{\"a\":\"x\"}''), (''XYZ_foo'', bytes_of ''{\"a\":1}'')]"

definition envelope_of :: "byte list \<Rightarrow> error + (string \<times> byte list) list" where
  "envelope_of data =
     (if data = bytes_of extensions_json then Inr two_extensions else Inl (JSONError 0))"

definition number_registry :: "nat registry" where
  "number_registry =
     RegisterExtension Map.empty ''KHR_lights''
       (\<lambda>value. if value = bytes_of ''{\"a\":1}'' then Inr 1 else Inl (JSONError 1))"

section \<open>Properties\<close>

lemma HasPrefix_iff: "HasPrefix s p \<longleftrightarrow> (\<exists>t. s = p @ t)"
proof
  assume "HasPrefix s p"
  then have "s = p @ drop (length p) s"
    unfolding HasPrefix_def by (metis append_take_drop_id)
  then show "\<exists>t. s = p @ t" ..
next
  assume "\<exists>t. s = p @ t"
  then show "HasPrefix s p" by (auto simp: HasPrefix_def)
qed

lemma Contains_iff: "Contains s sub \<longleftrightarrow> (\<exists>pre post. s = pre @ sub @ post)"
proof (induction s)
  case Nil
  show ?case by auto
next
  case (Cons c cs)
  show ?case
  proof
    assume "Contains (c # cs) sub"
    then consider "HasPrefix (c # cs) sub" | "Contains cs sub" by auto
    then show "\<exists>pre post. c # cs = pre @ sub @ post"
    proof cases
      case 1
      then obtain t where "c # cs = sub @ t" by (auto simp: HasPrefix_iff)
      then have "c # cs = [] @ sub @ t" by simp
      then show ?thesis by blast
    next
      case 2
      with Cons.IH obtain pre post where "cs = pre @ sub @ post" by blast
      then have "c # cs = (c # pre) @ sub @ post" by simp
      then show ?thesis by blast
    qed
  next
    assume "\<exists>pre post. c # cs = pre @ sub @ post"
    then obtain pre post where eq: "c # cs = pre @ sub @ post" by blast
    show "Contains (c # cs) sub"
    proof (cases pre)
      case Nil
      with eq have "HasPrefix (c # cs) sub" by (auto simp: HasPrefix_iff)
      then show ?thesis by simp
    next
      case (Cons a pre')
      with eq have "cs = pre' @ sub @ post" by simp
      with Cons.IH have "Contains cs sub" by blast
      then show ?thesis by simp
    qed
  qed
qed

subsection \<open>The decoder: what its steps keep, and how the loop is reached\<close>

lemma readGLBHeader_keeps:
  "readGLBHeader d = (h, e, d1) \<Longrightarrow> d_quotas d1 = d_quotas d \<and> d_log d1 = d_log d \<and> d_cb d1 = d_cb d"
  by (auto simp: readGLBHeader_def Let_def split: prod.splits option.splits if_splits)

lemma decodeDocument_keeps:
  "decodeDocument jd d doc = (isBinary, e, doc1, d1) \<Longrightarrow>
     d_quotas d1 = d_quotas d \<and> d_log d1 = d_log d \<and> d_cb d1 = d_cb d"
  by (auto simp: decodeDocument_def Let_def split: prod.splits option.splits if_splits
           dest: readGLBHeader_keeps)

lemma decodeDocument_count:
  "decodeDocument jd d doc = (isBinary, None, doc1, d1) \<Longrightarrow>
     int (length (Buffers doc1)) \<le> MaxBufferCount (d_quotas d1)"
  by (auto simp: decodeDocument_def Let_def split: prod.splits option.splits if_splits
           dest: readGLBHeader_keeps)

lemma decodeBuffers_append:
  "decodeBuffers d pre = (None, pre', d1) \<Longrightarrow>
     decodeBuffers d (pre @ rest) =
       (case decodeBuffers d1 rest of (e, rest', d2) \<Rightarrow> (e, pre' @ rest', d2))"
proof (induction pre arbitrary: d pre')
  case Nil
  then show ?case by (simp split: prod.splits)
next
  case (Cons b bs)
  then show ?case
    by (auto split: prod.splits option.splits)
qed

lemma loadBuffers_plain: "loadBuffers False d bs = decodeBuffers d bs"
  by (simp add: loadBuffers_def split: list.splits)

lemma loadBuffers_append:
  assumes "loadBuffers isBinary d pre = (None, pre', d1)" and "\<not> (isBinary \<and> pre = [])"
  shows "loadBuffers isBinary d (pre @ rest) =
           (case decodeBuffers d1 rest of (e, rest', d2) \<Rightarrow> (e, pre' @ rest', d2))"
proof (cases "isBinary")
  case False
  with assms(1) have "decodeBuffers d pre = (None, pre', d1)"
    by (simp add: loadBuffers_plain)
  then show ?thesis
    using False by (simp add: loadBuffers_plain decodeBuffers_append)
next
  case True
  with assms obtain b bs where pre: "pre = b # bs" by (cases pre) auto
  show ?thesis using assms True
    by (auto simp: pre loadBuffers_def decodeBuffers_append split: prod.splits option.splits)
qed

lemma Decode_reaches:
  assumes "decodeDocument jd d doc = (isBinary, None, doc1, d1)"
    and "Buffers doc1 = pre @ b # post"
    and "loadBuffers isBinary d1 pre = (None, pre', d2)"
    and "\<not> (isBinary \<and> pre = [])"
  shows "Decode jd d doc =
           (case decodeBuffer d2 b of
              (Some e, b', d3) \<Rightarrow> (Some e, doc1\<lparr>Buffers := pre' @ b' # post\<rparr>, d3)
            | (None, b', d3) \<Rightarrow>
                (case decodeBuffers d3 post of
                   (e, post', d4) \<Rightarrow> (e, doc1\<lparr>Buffers := pre' @ b' # post'\<rparr>, d4)))"
proof -
  have cnt: "\<not> int (length (Buffers doc1)) > MaxBufferCount (d_quotas d1)"
    using decodeDocument_count [OF assms(1)] by simp
  have "loadBuffers isBinary d1 (Buffers doc1) =
          (case decodeBuffers d2 (b # post) of (e, rest', d3) \<Rightarrow> (e, pre' @ rest', d3))"
    unfolding assms(2) by (rule loadBuffers_append [OF assms(3) assms(4)])
  then show ?thesis
    using cnt by (simp add: Decode_def assms(1) split: prod.splits option.splits)
qed

lemma replicate_numeral: "replicate (numeral k) x = x # replicate (pred_numeral k) x"
  by (simp add: numeral_eq_Suc)

lemmas decoder_simps = replicate_numeral
  Decode_def decodeDocument_def readGLBHeader_def Peek_def validateGLBHeader_def
  NewDecoder_def loadBuffers_def decodeBinaryBuffer_def decodeBuffer_def chunkHeader_def
  validateBuffer_def IsEmbeddedResource_def HasPrefix_def mimetypeApplicationOctet_def
  validateBufferURI_def marshalData_def DecodeString_def b64val_def
  glbHeaderMagic_def glbChunkJSON_def glbChunkBIN_def sizeof_glbHeader_def sizeof_chunkHeader_def
  le32_def bytes_of_def jd_yielding_def glb_head_def bin_head_def no_callback_def
  nine_buffers_def abc_buffer_def secret_buffer_def a_buffer_def nine_json_def
  jd_reading_def plain_def one_delivery_def sizeof_pointer_def abc_json_def abc_cut_json_def
  abc_empty_json_def abc_zero_json_def two_json_def secret_json_def secret_big_json_def Let_def

lemma decodeBuffer_keeps:
  "decodeBuffer d b = (e, b', d') \<Longrightarrow> d_quotas d' = d_quotas d \<and> d_cb d' = d_cb d \<and> d_r d' = d_r d"
  by (auto simp: decodeBuffer_def Let_def split: option.splits sum.splits prod.splits if_splits)

lemma decodeBinaryBuffer_keeps:
  "decodeBinaryBuffer d b = (e, b', d') \<Longrightarrow>
     d_quotas d' = d_quotas d \<and> d_cb d' = d_cb d \<and> d_log d' = d_log d"
  by (auto simp: decodeBinaryBuffer_def chunkHeader_def split: option.splits prod.splits if_splits)

lemma decodeBuffers_keeps:
  "decodeBuffers d bs = (e, bs', d') \<Longrightarrow> d_quotas d' = d_quotas d \<and> d_cb d' = d_cb d \<and> d_r d' = d_r d"
proof (induction bs arbitrary: d bs' d' e)
  case Nil
  then show ?case by simp
next
  case (Cons b bs)
  obtain e1 b1 d1 where step: "decodeBuffer d b = (e1, b1, d1)"
    by (cases "decodeBuffer d b") auto
  note k1 = decodeBuffer_keeps [OF step]
  show ?case
  proof (cases e1)
    case (Some x)
    with Cons.prems step have "d' = d1" by simp
    with k1 show ?thesis by simp
  next
    case None
    obtain e2 bs2 d2 where rest: "decodeBuffers d1 bs = (e2, bs2, d2)"
      by (cases "decodeBuffers d1 bs") auto
    with Cons.prems step None have "d' = d2" by simp
    with Cons.IH [OF rest] k1 show ?thesis by simp
  qed
qed

lemma loadBuffers_keeps:
  assumes "loadBuffers isBinary d bs = (e, bs', d')"
  shows "d_quotas d' = d_quotas d \<and> d_cb d' = d_cb d"
proof (cases "isBinary \<and> bs \<noteq> []")
  case False
  with assms have "decodeBuffers d bs = (e, bs', d')"
    by (auto simp: loadBuffers_def split: list.splits)
  then show ?thesis by (simp add: decodeBuffers_keeps)
next
  case True
  then obtain b rest where bs: "bs = b # rest" by (cases bs) auto
  obtain e1 b1 d1 where step: "decodeBinaryBuffer d b = (e1, b1, d1)"
    by (cases "decodeBinaryBuffer d b") auto
  note k1 = decodeBinaryBuffer_keeps [OF step]
  show ?thesis
  proof (cases e1)
    case (Some x)
    with assms True step bs have "d' = d1" by (simp add: loadBuffers_def)
    with k1 show ?thesis by simp
  next
    case None
    obtain e2 bs2 d2 where rest: "decodeBuffers d1 rest = (e2, bs2, d2)"
      by (cases "decodeBuffers d1 rest") auto
    with assms True step bs None have "d' = d2" by (simp add: loadBuffers_def)
    with decodeBuffers_keeps [OF rest] k1 show ?thesis by simp
  qed
qed

text \<open>
  The log only grows, and every callback invocation it gains is for a URI that
  \<open>validateBufferURI\<close> accepts: \<open>d.cb\<close> is called in one place, behind that check.
\<close>

lemma decodeBuffer_log:
  assumes "decodeBuffer d b = (e, b', d')"
  shows "\<exists>evs. d_log d' = d_log d @ evs \<and> (\<forall>u. Invoked u \<in> set evs \<longrightarrow> validateBufferURI u = None)"
proof (cases "validateBuffer d b = None \<and> URI b \<noteq> [] \<and> \<not> IsEmbeddedResource b
               \<and> validateBufferURI (URI b) = None")
  case False
  with assms have "d' = d"
    by (auto simp: decodeBuffer_def split: option.splits sum.splits prod.splits if_splits)
  then have "d_log d' = d_log d @ []" by simp
  then show ?thesis by force
next
  case True
  with assms have "d_log d' = d_log d @ [Invoked (URI b)]
      \<or> d_log d' = d_log d @ [Invoked (URI b), Closed (URI b)]"
    by (auto simp: decodeBuffer_def Let_def split: option.splits prod.splits if_splits)
  then show ?thesis
  proof
    assume "d_log d' = d_log d @ [Invoked (URI b)]"
    moreover have "\<forall>u. Invoked u \<in> set [Invoked (URI b)] \<longrightarrow> validateBufferURI u = None"
      using True by simp
    ultimately show ?thesis by blast
  next
    assume "d_log d' = d_log d @ [Invoked (URI b), Closed (URI b)]"
    moreover have "\<forall>u. Invoked u \<in> set [Invoked (URI b), Closed (URI b)] \<longrightarrow> validateBufferURI u = None"
      using True by simp
    ultimately show ?thesis by blast
  qed
qed

lemma decodeBuffers_log:
  "decodeBuffers d bs = (e, bs', d') \<Longrightarrow>
     \<exists>evs. d_log d' = d_log d @ evs \<and> (\<forall>u. Invoked u \<in> set evs \<longrightarrow> validateBufferURI u = None)"
proof (induction bs arbitrary: d bs' d' e)
  case Nil
  then have "d_log d' = d_log d @ []" by simp
  then show ?case by force
next
  case (Cons b bs)
  obtain e1 b1 d1 where step: "decodeBuffer d b = (e1, b1, d1)"
    by (cases "decodeBuffer d b") auto
  from decodeBuffer_log [OF step] obtain evs1 where
    l1: "d_log d1 = d_log d @ evs1" "\<forall>u. Invoked u \<in> set evs1 \<longrightarrow> validateBufferURI u = None"
    by blast
  show ?case
  proof (cases e1)
    case (Some x)
    with Cons.prems step have "d' = d1" by simp
    with l1 show ?thesis by blast
  next
    case None
    obtain e2 bs2 d2 where rest: "decodeBuffers d1 bs = (e2, bs2, d2)"
      by (cases "decodeBuffers d1 bs") auto
    with Cons.prems step None have d': "d' = d2" by simp
    from Cons.IH [OF rest] obtain evs2 where
      l2: "d_log d2 = d_log d1 @ evs2" "\<forall>u. Invoked u \<in> set evs2 \<longrightarrow> validateBufferURI u = None"
      by blast
    have "d_log d' = d_log d @ (evs1 @ evs2)" using l1 l2 d' by simp
    moreover have "\<forall>u. Invoked u \<in> set (evs1 @ evs2) \<longrightarrow> validateBufferURI u = None"
      using l1 l2 by auto
    ultimately show ?thesis by blast
  qed
qed

lemma loadBuffers_log:
  assumes "loadBuffers isBinary d bs = (e, bs', d')"
  shows "\<exists>evs. d_log d' = d_log d @ evs \<and> (\<forall>u. Invoked u \<in> set evs \<longrightarrow> validateBufferURI u = None)"
proof (cases "isBinary \<and> bs \<noteq> []")
  case False
  with assms have "decodeBuffers d bs = (e, bs', d')"
    by (auto simp: loadBuffers_def split: list.splits)
  then show ?thesis by (rule decodeBuffers_log)
next
  case True
  then obtain b rest where bs: "bs = b # rest" by (cases bs) auto
  obtain e1 b1 d1 where step: "decodeBinaryBuffer d b = (e1, b1, d1)"
    by (cases "decodeBinaryBuffer d b") auto
  from decodeBinaryBuffer_keeps [OF step] have k1: "d_log d1 = d_log d" by simp
  show ?thesis
  proof (cases e1)
    case (Some x)
    with assms True step bs have "d' = d1" by (simp add: loadBuffers_def)
    with k1 have "d_log d' = d_log d @ []" by simp
    then show ?thesis by force
  next
    case None
    obtain e2 bs2 d2 where rest: "decodeBuffers d1 rest = (e2, bs2, d2)"
      by (cases "decodeBuffers d1 rest") auto
    with assms True step bs None have "d' = d2" by (simp add: loadBuffers_def)
    with decodeBuffers_log [OF rest] k1 show ?thesis by simp
  qed
qed

lemma Decode_log:
  "\<exists>evs. d_log (snd (snd (Decode jd d doc))) = d_log d @ evs
         \<and> (\<forall>u. Invoked u \<in> set evs \<longrightarrow> validateBufferURI u = None)"
proof -
  obtain isBinary e doc1 d1 where dd: "decodeDocument jd d doc = (isBinary, e, doc1, d1)"
    by (cases "decodeDocument jd d doc") auto
  from decodeDocument_keeps [OF dd] have k: "d_log d1 = d_log d" by simp
  show ?thesis
  proof (cases "e = None \<and> \<not> int (length (Buffers doc1)) > MaxBufferCount (d_quotas d1)")
    case False
    then have "snd (snd (Decode jd d doc)) = d1"
      using dd by (auto simp: Decode_def split: option.splits)
    with k have "d_log (snd (snd (Decode jd d doc))) = d_log d @ []" by simp
    then show ?thesis by force
  next
    case True
    obtain e2 bs2 d2 where lb: "loadBuffers isBinary d1 (Buffers doc1) = (e2, bs2, d2)"
      by (cases "loadBuffers isBinary d1 (Buffers doc1)") auto
    with True dd have "snd (snd (Decode jd d doc)) = d2"
      by (simp add: Decode_def)
    with loadBuffers_log [OF lb] k show ?thesis by simp
  qed
qed

lemma validateGLBHeader_char:
  "validateGLBHeader d h =
     (if uint (Length h) > MaxMemoryAllocation (d_quotas d) then Some ErrQuotaGLB
      else if chunk_Type (JSONHeader h) \<noteq> glbChunkJSON
              \<or> (unat (chunk_Length (JSONHeader h)) + 8) mod 2 ^ 32 > unat (Length h)
           then Some ErrInvalidGLBJSONHeader else None)"
  by (simp add: validateGLBHeader_def sizeof_pointer_def word_less_nat_alt unat_word_ariths)


subsection \<open>The URI validator\<close>

text \<open>
  C10.  The validator accepts a URI exactly when it is non-empty, does not contain
  the two characters \<open>..\<close> anywhere (as a substring, whether or not they form a path
  segment) and starts with neither \<open>/\<close> nor a backslash; every other URI is rejected
  with the invalid-URI error.  In particular \<open>my..file.bin\<close> is rejected.
\<close>

theorem C10_validateBufferURI_char:
  "(validateBufferURI uri = None \<longleftrightarrow>
      uri \<noteq> [] \<and> \<not> (\<exists>pre post. uri = pre @ ''..'' @ post)
        \<and> \<not> (\<exists>t. uri = CHR ''/'' # t) \<and> \<not> (\<exists>t. uri = CHR 0x5C # t))
   \<and> (validateBufferURI uri \<noteq> None \<longrightarrow> validateBufferURI uri = Some (ErrInvalidBufferURI uri))
   \<and> validateBufferURI ''my..file.bin'' = Some (ErrInvalidBufferURI ''my..file.bin'')"
proof (intro conjI)
  show "validateBufferURI uri = None \<longleftrightarrow>
      uri \<noteq> [] \<and> \<not> (\<exists>pre post. uri = pre @ ''..'' @ post)
        \<and> \<not> (\<exists>t. uri = CHR ''/'' # t) \<and> \<not> (\<exists>t. uri = CHR 0x5C # t)"
    by (simp add: validateBufferURI_def Contains_iff HasPrefix_iff)
  show "validateBufferURI uri \<noteq> None \<longrightarrow> validateBufferURI uri = Some (ErrInvalidBufferURI uri)"
    by (simp add: validateBufferURI_def)
  show "validateBufferURI ''my..file.bin'' = Some (ErrInvalidBufferURI ''my..file.bin'')"
    by (simp add: validateBufferURI_def HasPrefix_def)
qed

theorem C10_validateBufferURI_char_witness:
  "validateBufferURI ''models/a.bin'' = None
   \<and> validateBufferURI ''/etc/passwd'' = Some (ErrInvalidBufferURI ''/etc/passwd'')
   \<and> validateBufferURI ''my..file.bin'' = Some (ErrInvalidBufferURI ''my..file.bin'')"
  using C10_validateBufferURI_char [of "''models/a.bin''"]
        C10_validateBufferURI_char [of "''/etc/passwd''"]
  by (simp add: validateBufferURI_def HasPrefix_def)

subsection \<open>Reading a buffer's bytes\<close>

text \<open>
  One \<open>Read\<close> into the zeroed slice fills it when the first delivery is long enough;
  after a shorter delivery the tail stays zero and no error is returned.  When the
  callback returns a stream, \<open>decodeBuffer\<close> reads once, closes the stream and
  returns the error of that \<open>Read\<close>.
\<close>

lemma Read_full_delivery:
  "n \<le> length c \<Longrightarrow> fst (Read (Bytes c # s) (replicate n 0)) = take n c"
  by (simp add: Let_def min_def)

lemma Read_short_delivery:
  "length c < n \<Longrightarrow> Read (Bytes c # s) (replicate n 0) = (c @ replicate (n - length c) 0, None, s)"
  by (simp add: Let_def min_def)

lemma decodeBuffer_external:
  assumes "validateBuffer d b = None" and "URI b \<noteq> []" and "\<not> IsEmbeddedResource b"
    and "validateBufferURI (URI b) = None" and "d_cb d (URI b) = (Some rc, None)"
  shows "decodeBuffer d b =
           (fst (snd (Read rc (replicate (unat (ByteLength b)) 0))),
            b\<lparr>Data := fst (Read rc (replicate (unat (ByteLength b)) 0))\<rparr>,
            d\<lparr>d_log := d_log d @ [Invoked (URI b), Closed (URI b)]\<rparr>)"
  using assms by (simp add: decodeBuffer_def Let_def split: prod.splits)

text \<open>
  C2.  The claim: a buffer filled from the callback's stream, or from the binary
  chunk of a GLB, holds exactly its first \<open>byteLength\<close> bytes also when the reader
  delivers them over several calls, and is never left partly filled when \<open>Decode\<close>
  succeeds.  The code calls \<open>Read\<close> once and drops the count it returns.  Evaluated on
  a callback stream that delivers \<open>1, 2\<close> and then \<open>3, 4\<close>, and on a GLB whose input
  delivers the first two bytes of the binary chunk with the headers and the last two
  afterwards: in both \<open>Decode\<close> returns no error, \<open>Data\<close> is \<open>1, 2, 0, 0\<close>, and in
  the second the bytes \<open>3, 4\<close> are left unread.
\<close>

theorem C2_single_Read_leaves_Data_partly_filled:
  "Decode (jd_yielding [\<lparr>URI = ''a.bin'', ByteLength = 4, Data = []\<rparr>])
      (NewDecoder [Bytes (bytes_of ''{\"buffers\":[{\"uri\":\"a.bin\",\"byteLength\":4}]}'')]
         (\<lambda>uri. (Some [Bytes [1, 2], Bytes [3, 4]], None)))
      \<lparr>Buffers = []\<rparr>
   = (None, \<lparr>Buffers = [\<lparr>URI = ''a.bin'', ByteLength = 4, Data = [1, 2, 0, 0]\<rparr>]\<rparr>,
      (NewDecoder [] (\<lambda>uri. (Some [Bytes [1, 2], Bytes [3, 4]], None)))
        \<lparr>d_log := [Invoked ''a.bin'', Closed ''a.bin'']\<rparr>)
   \<and> Decode (jd_yielding [\<lparr>URI = [], ByteLength = 4, Data = []\<rparr>])
      (NewDecoder [Bytes (glb_head 64 ''{\"buffers\":[{\"byteLength\":4}]}  '' @ bin_head 4 @ [1, 2]),
                   Bytes [3, 4]] no_callback)
      \<lparr>Buffers = []\<rparr>
   = (None, \<lparr>Buffers = [\<lparr>URI = [], ByteLength = 4, Data = [1, 2, 0, 0]\<rparr>]\<rparr>,
      NewDecoder [Bytes [3, 4]] no_callback)"
  by (simp add: decoder_simps)

subsection \<open>Embedded base64 buffers\<close>

text \<open>
  C3, as amended.  Let \<open>Decode\<close> reach a buffer \<open>b\<close> (the document decoded, the
  buffers before \<open>b\<close> loaded without error, \<open>b\<close> not the binary-chunk buffer of a
  GLB) whose \<open>byteLength\<close> is non-zero and within the memory quota and whose URI is
  the octet-stream marker, one character, and a payload.  If the base64 decoding of
  the payload fails, \<open>Decode\<close> fails with that error, \<open>Data\<close> of \<open>b\<close> is empty and
  no later buffer is touched.  Otherwise \<open>Data\<close> of \<open>b\<close> is exactly the decoded
  bytes, also when there are none, and \<open>Decode\<close> goes on with the later buffers.
\<close>

theorem C3_embedded_buffer_Data:
  assumes "decodeDocument jd d doc = (isBinary, None, doc1, d1)"
    and "Buffers doc1 = pre @ b # post"
    and "loadBuffers isBinary d1 pre = (None, pre', d2)"
    and "\<not> (isBinary \<and> pre = [])"
    and "ByteLength b \<noteq> 0"
    and "uint (ByteLength b) \<le> MaxMemoryAllocation (d_quotas d)"
    and "URI b = mimetypeApplicationOctet @ c # payload"
  shows "Decode jd d doc =
           (case DecodeString payload of
              (sl, Some e) \<Rightarrow> (Some e, doc1\<lparr>Buffers := pre' @ b\<lparr>Data := []\<rparr> # post\<rparr>, d2)
            | (sl, None) \<Rightarrow>
                (case decodeBuffers d2 post of
                   (e, post', d3) \<Rightarrow> (e, doc1\<lparr>Buffers := pre' @ b\<lparr>Data := sl\<rparr> # post'\<rparr>, d3)))"
proof -
  have q: "d_quotas d2 = d_quotas d"
    using loadBuffers_keeps [OF assms(3)] decodeDocument_keeps [OF assms(1)] by simp
  have emb: "IsEmbeddedResource b"
    by (simp add: IsEmbeddedResource_def HasPrefix_iff assms(7))
  have md: "marshalData b =
          (case DecodeString payload of
             (sl, Some e) \<Rightarrow> Inr ([], Some e) | (sl, None) \<Rightarrow> Inr (sl, None))"
    using emb by (auto simp: marshalData_def assms(7) Let_def split: prod.splits option.splits)
  have "decodeBuffer d2 b =
          (case DecodeString payload of
             (sl, Some e) \<Rightarrow> (Some e, b\<lparr>Data := []\<rparr>, d2) | (sl, None) \<Rightarrow> (None, b\<lparr>Data := sl\<rparr>, d2))"
    using assms(5,6) q emb
    by (auto simp: decodeBuffer_def validateBuffer_def md assms(7) split: prod.splits option.splits)
  then show ?thesis
    by (simp add: Decode_reaches [OF assms(1-4)] split: prod.splits option.splits)
qed

text \<open>The payload \<open>QUJD\<close> gives the bytes \<open>A, B, C\<close>; the payload \<open>QUJ\<close> is
  rejected.\<close>

theorem C3_embedded_buffer_Data_witness:
  "Decode (jd_reading abc_json [abc_buffer]) (NewDecoder (plain abc_json) no_callback) \<lparr>Buffers = []\<rparr>
    = (None, \<lparr>Buffers = [abc_buffer\<lparr>Data := [65, 66, 67]\<rparr>]\<rparr>, NewDecoder [] no_callback)
   \<and> Decode (jd_reading abc_cut_json [abc_buffer\<lparr>URI := ''data:application/octet-stream;base64,QUJ''\<rparr>])
        (NewDecoder (plain abc_cut_json) no_callback) \<lparr>Buffers = []\<rparr>
    = (Some CorruptInputError,
       \<lparr>Buffers = [abc_buffer\<lparr>URI := ''data:application/octet-stream;base64,QUJ''\<rparr>]\<rparr>,
       NewDecoder [] no_callback)"
  using C3_embedded_buffer_Data [of "jd_reading abc_json [abc_buffer]" "NewDecoder (plain abc_json) no_callback"
      "\<lparr>Buffers = []\<rparr>" False "\<lparr>Buffers = [abc_buffer]\<rparr>" "NewDecoder [] no_callback"
      "[]" abc_buffer "[]" "[]" "NewDecoder [] no_callback" "CHR '',''" "''QUJD''"]
  by (simp add: decoder_simps)

text \<open>The claim as stated fails: an embedded URI with an empty payload decodes to no
  bytes, and \<open>Decode\<close> reports no error.  And with a \<open>byteLength\<close> of zero the
  payload \<open>QUJD\<close> is not decoded at all: \<open>Decode\<close> fails before it looks at the
  URI.\<close>

theorem C3_empty_payload_is_no_error:
  "Decode (jd_reading abc_empty_json [abc_buffer\<lparr>URI := ''data:application/octet-stream;base64,''\<rparr>])
      (NewDecoder (plain abc_empty_json) no_callback) \<lparr>Buffers = []\<rparr>
    = (None, \<lparr>Buffers = [abc_buffer\<lparr>URI := ''data:application/octet-stream;base64,''\<rparr>]\<rparr>,
       NewDecoder [] no_callback)
   \<and> Decode (jd_reading abc_zero_json [abc_buffer\<lparr>ByteLength := 0\<rparr>])
      (NewDecoder (plain abc_zero_json) no_callback) \<lparr>Buffers = []\<rparr>
    = (Some ErrInvalidByteLength, \<lparr>Buffers = [abc_buffer\<lparr>ByteLength := 0\<rparr>]\<rparr>,
       NewDecoder [] no_callback)"
  by (simp add: decoder_simps)

subsection \<open>The GLB header\<close>

text \<open>
  C4.  The claim: once the magic matches, decoding fails whenever
  \<open>chunkLength + 20\<close>, computed exactly, exceeds \<open>totalLength\<close>.  The code adds
  \<open>unsafe.Sizeof(header)\<close> of a pointer, which is 8, and adds in \<open>uint32\<close>, where the
  sum wraps (\<open>validateGLBHeader_char\<close>).  Evaluated on two headers with
  \<open>totalLength = 100\<close> and the JSON chunk type: with \<open>chunkLength = 85\<close> the code
  compares \<open>93\<close> with \<open>100\<close>, with \<open>chunkLength = 0xFFFFFFF8\<close> the sum wraps to
  \<open>0\<close>.  Both headers are returned with no error, although \<open>chunkLength + 20\<close>
  exceeds \<open>100\<close>.
\<close>

theorem C4_length_check_adds_pointer_size:
  "readGLBHeader
      (NewDecoder [Bytes [0x67, 0x6C, 0x54, 0x46, 2, 0, 0, 0, 100, 0, 0, 0,
                          85, 0, 0, 0, 0x4A, 0x53, 0x4F, 0x4E]] no_callback)
    = (Some \<lparr>Magic = glbHeaderMagic, Version = 2, Length = 100,
              JSONHeader = \<lparr>chunk_Length = 85, chunk_Type = glbChunkJSON\<rparr>\<rparr>,
       None, NewDecoder [] no_callback)
   \<and> unat (85 :: uint32) + sizeof_glbHeader > unat (100 :: uint32)
   \<and> readGLBHeader
      (NewDecoder [Bytes [0x67, 0x6C, 0x54, 0x46, 2, 0, 0, 0, 100, 0, 0, 0,
                          0xF8, 0xFF, 0xFF, 0xFF, 0x4A, 0x53, 0x4F, 0x4E]] no_callback)
    = (Some \<lparr>Magic = glbHeaderMagic, Version = 2, Length = 100,
              JSONHeader = \<lparr>chunk_Length = 0xFFFFFFF8, chunk_Type = glbChunkJSON\<rparr>\<rparr>,
       None, NewDecoder [] no_callback)
   \<and> unat (0xFFFFFFF8 :: uint32) + sizeof_glbHeader > unat (100 :: uint32)"
  by (simp add: decoder_simps)

subsection \<open>The buffer-count quota\<close>

text \<open>
  C6.  If the header is read without error and the JSON decoder returns a document
  with more buffers than \<open>MaxBufferCount\<close>, then \<open>Decode\<close> returns the quota error;
  the document is the one the JSON decoder left (no \<open>Data\<close> is written), the input
  is read no further, and the callback is not invoked.
\<close>

theorem C6_buffer_count_quota:
  assumes "readGLBHeader d = (h, None, d1)"
    and "jd (map_option (\<lambda>h. unat (chunk_Length (JSONHeader h))) h) (d_r d1) doc = (None, doc1, s)"
    and "int (length (Buffers doc1)) > MaxBufferCount (d_quotas d)"
  shows "Decode jd d doc = (Some ErrQuotaBufferCount, doc1, d1\<lparr>d_r := s\<rparr>)
         \<and> d_log (d1\<lparr>d_r := s\<rparr>) = d_log d"
  using assms readGLBHeader_keeps [OF assms(1)]
  by (simp add: Decode_def decodeDocument_def Let_def)

text \<open>Nine buffers against the default limit of eight.\<close>

theorem C6_buffer_count_quota_witness:
  "Decode (jd_reading nine_json nine_buffers) (NewDecoder (plain nine_json) no_callback) \<lparr>Buffers = []\<rparr>
    = (Some ErrQuotaBufferCount, \<lparr>Buffers = nine_buffers\<rparr>, NewDecoder [] no_callback)
   \<and> length nine_buffers = 9 \<and> MaxBufferCount (d_quotas (NewDecoder (plain nine_json) no_callback)) = 8
   \<and> d_log (NewDecoder [] no_callback) = []"
  using C6_buffer_count_quota [of "NewDecoder (plain nine_json) no_callback" None
      "NewDecoder (plain nine_json) no_callback"
      "jd_reading nine_json nine_buffers" "\<lparr>Buffers = []\<rparr>" "\<lparr>Buffers = nine_buffers\<rparr>" "[]"]
  by (simp add: decoder_simps)

subsection \<open>Unsafe buffer URIs\<close>

text \<open>
  C7, as amended.  Let the URI of a buffer \<open>b\<close> be empty, contain \<open>..\<close>, or start
  with \<open>/\<close> or a backslash.  Then in every run of \<open>Decode\<close> the callback is never
  invoked with that URI: no such invocation is among the events the run adds to the
  log.  If moreover \<open>Decode\<close> reaches \<open>b\<close> (the document decoded, the buffers
  before \<open>b\<close> loaded without error, \<open>b\<close> not the binary-chunk buffer of a GLB),
  the \<open>byteLength\<close> of \<open>b\<close> is non-zero and within the memory quota, and the URI
  is not an embedded data URI, then \<open>Decode\<close> fails: with the buffer-without-URI
  error when the URI is empty, with the invalid-URI error otherwise; \<open>b\<close> and the
  later buffers are untouched.
\<close>

theorem C7_unsafe_URI_rejected:
  assumes "URI b = [] \<or> Contains (URI b) ''..'' \<or> HasPrefix (URI b) ''/'' \<or> HasPrefix (URI b) [CHR 0x5C]"
  shows "(\<exists>evs. d_log (snd (snd (Decode jd d doc))) = d_log d @ evs \<and> Invoked (URI b) \<notin> set evs)
         \<and> (decodeDocument jd d doc = (isBinary, None, doc1, d1)
              \<and> Buffers doc1 = pre @ b # post
              \<and> loadBuffers isBinary d1 pre = (None, pre', d2)
              \<and> \<not> (isBinary \<and> pre = [])
              \<and> ByteLength b \<noteq> 0
              \<and> uint (ByteLength b) \<le> MaxMemoryAllocation (d_quotas d)
              \<and> \<not> IsEmbeddedResource b
            \<longrightarrow> Decode jd d doc =
                  (Some (if URI b = [] then ErrBufferWithoutURI else ErrInvalidBufferURI (URI b)),
                   doc1\<lparr>Buffers := pre' @ b # post\<rparr>, d2))"
proof (intro conjI impI)
  have unsafe: "validateBufferURI (URI b) \<noteq> None"
    using assms by (simp add: validateBufferURI_def)
  from Decode_log [of jd d doc] obtain evs where
    "d_log (snd (snd (Decode jd d doc))) = d_log d @ evs"
    "\<forall>u. Invoked u \<in> set evs \<longrightarrow> validateBufferURI u = None" by blast
  then have "d_log (snd (snd (Decode jd d doc))) = d_log d @ evs \<and> Invoked (URI b) \<notin> set evs"
    using unsafe by auto
  then show "\<exists>evs. d_log (snd (snd (Decode jd d doc))) = d_log d @ evs \<and> Invoked (URI b) \<notin> set evs"
    by (rule exI)
next
  assume h: "decodeDocument jd d doc = (isBinary, None, doc1, d1)
              \<and> Buffers doc1 = pre @ b # post
              \<and> loadBuffers isBinary d1 pre = (None, pre', d2)
              \<and> \<not> (isBinary \<and> pre = [])
              \<and> ByteLength b \<noteq> 0
              \<and> uint (ByteLength b) \<le> MaxMemoryAllocation (d_quotas d)
              \<and> \<not> IsEmbeddedResource b"
  then have dd: "decodeDocument jd d doc = (isBinary, None, doc1, d1)"
    and bufs: "Buffers doc1 = pre @ b # post"
    and lb: "loadBuffers isBinary d1 pre = (None, pre', d2)"
    and nb: "\<not> (isBinary \<and> pre = [])"
    and len: "ByteLength b \<noteq> 0" "uint (ByteLength b) \<le> MaxMemoryAllocation (d_quotas d)"
    and ne: "\<not> IsEmbeddedResource b" by simp_all
  have q: "d_quotas d2 = d_quotas d"
    using loadBuffers_keeps [OF lb] decodeDocument_keeps [OF dd] by simp
  have vb: "validateBuffer d2 b = None"
    using len q by (simp add: validateBuffer_def)
  have vu: "validateBufferURI (URI b) = Some (ErrInvalidBufferURI (URI b))"
    using assms by (simp add: validateBufferURI_def)
  have "decodeBuffer d2 b =
          (Some (if URI b = [] then ErrBufferWithoutURI else ErrInvalidBufferURI (URI b)), b, d2)"
    using ne by (simp add: decodeBuffer_def vb vu)
  then show "Decode jd d doc =
                  (Some (if URI b = [] then ErrBufferWithoutURI else ErrInvalidBufferURI (URI b)),
                   doc1\<lparr>Buffers := pre' @ b # post\<rparr>, d2)"
    by (simp add: Decode_reaches [OF dd bufs lb nb])
qed

text \<open>The buffer \<open>a.bin\<close> followed by the buffer \<open>../secret.bin\<close>: the first is
  loaded through the callback, the second is rejected, and the callback is not
  invoked for it.\<close>

theorem C7_unsafe_URI_rejected_witness:
  "Decode (jd_reading two_json [a_buffer, secret_buffer]) (NewDecoder (plain two_json) one_delivery)
      \<lparr>Buffers = []\<rparr>
    = (Some (ErrInvalidBufferURI ''../secret.bin''),
       \<lparr>Buffers = [a_buffer\<lparr>Data := [1, 2, 3, 4]\<rparr>, secret_buffer]\<rparr>,
       (NewDecoder [] one_delivery)\<lparr>d_log := [Invoked ''a.bin'', Closed ''a.bin'']\<rparr>)
   \<and> Invoked ''../secret.bin'' \<notin> set [Invoked ''a.bin'', Closed ''a.bin'']"
  using C7_unsafe_URI_rejected [where b = secret_buffer and jd = "jd_reading two_json [a_buffer, secret_buffer]"
      and d = "NewDecoder (plain two_json) one_delivery" and doc = "\<lparr>Buffers = []\<rparr>"
      and isBinary = False and ?doc1.0 = "\<lparr>Buffers = [a_buffer, secret_buffer]\<rparr>"
      and ?d1.0 = "NewDecoder [] one_delivery" and pre = "[a_buffer]" and post = "[]"
      and pre' = "[a_buffer\<lparr>Data := [1, 2, 3, 4]\<rparr>]"
      and ?d2.0 = "(NewDecoder [] one_delivery)\<lparr>d_log := [Invoked ''a.bin'', Closed ''a.bin'']\<rparr>"]
  by (simp add: decoder_simps)

text \<open>The claim as stated fails.  As the first buffer of a GLB, the buffer
  \<open>../secret.bin\<close> is filled from the binary chunk and \<open>Decode\<close> succeeds: its URI is
  never looked at.  With a \<open>byteLength\<close> of 64 MiB against the default quota of
  32 MiB, \<open>Decode\<close> fails with the quota error, not with a URI error.\<close>

theorem C7_unsafe_URI_not_always_a_URI_error:
  "Decode (jd_reading secret_json [secret_buffer])
      (NewDecoder [Bytes (glb_head 84 secret_json @ bin_head 4 @ [1, 2, 3, 4])] no_callback)
      \<lparr>Buffers = []\<rparr>
    = (None, \<lparr>Buffers = [secret_buffer\<lparr>Data := [1, 2, 3, 4]\<rparr>]\<rparr>, NewDecoder [] no_callback)
   \<and> Decode (jd_reading secret_big_json [secret_buffer\<lparr>ByteLength := 0x4000000\<rparr>])
      (NewDecoder (plain secret_big_json) no_callback) \<lparr>Buffers = []\<rparr>
    = (Some ErrQuotaBuffer, \<lparr>Buffers = [secret_buffer\<lparr>ByteLength := 0x4000000\<rparr>]\<rparr>,
       NewDecoder [] no_callback)"
  by (simp add: decoder_simps)

subsection \<open>Encoding a node\<close>

lemmas marshal_simps =
  Node_MarshalJSON_def Node_MarshalJSON_structured_def json_Marshal_Node_def Node_head_def
  Node_weights_def Node_finite_def finite_floats_def opt_uint_def uints_def floats_def member_def
  quote_def removeProperty_def sanitizeJSON_def HasPrefix_def array_eq_def f64_eq_def IsNaN_def
  IsInf_def f64_exp_def f64_man_def f64_neg_def f64_nat_def floatText_def f64_1_def
  DefaultMatrix_def DefaultRotation_def DefaultScale_def DefaultTranslation_def emptyMatrix_def
  emptyRotation_def emptyScale_def Node_zero_def node_default_def node_extras_rotation_def
  node_name_commas_def node_extras_scale_def node_name_brace_def Let_def

text \<open>A node with nothing but the default transforms is written as the empty
  object, by the code and by the structured encoding.\<close>

lemma Node_MarshalJSON_default:
  "Node_MarshalJSON ff node_default = Inr ''{}''
   \<and> Node_MarshalJSON_structured ff node_default = Inr ''{}''"
  by (simp add: marshal_simps)

text \<open>
  C1.  The claim: \<open>MarshalJSON\<close> writes what the structured encoding writes, and
  removing the default properties from the finished text changes nothing else.
  The code removes the first occurrence of the text of a property, and the first
  \<open>,,\<close>, \<open>{,\<close> and \<open>,}\<close>, wherever they stand.  Evaluated on the default node whose
  \<open>Extras\<close> is the object with the one entry \<open>rotation\<close> = \<open>[0,0,0,1]\<close>: the code
  empties \<open>Extras\<close> and keeps the node's own rotation.  Evaluated on the default
  node named \<open>a,,b\<close>: the code writes the name \<open>a,b\<close>.  The structured encoding
  keeps both values.
\<close>

theorem C1_text_removal_alters_other_fields:
  "Node_MarshalJSON ff node_extras_rotation = Inr ''{\"extras\":{},\"rotation\":[0,0,0,1]}''
   \<and> Node_MarshalJSON_structured ff node_extras_rotation
       = Inr ''{\"extras\":{\"rotation\":[0,0,0,1]}}''
   \<and> Node_MarshalJSON ff node_name_commas = Inr ''{\"name\":\"a,b\"}''
   \<and> Node_MarshalJSON_structured ff node_name_commas = Inr ''{\"name\":\"a,,b\"}''"
  by (simp add: marshal_simps)

text \<open>
  C5.  The claim: a node whose transform field equals its default (or the all-zero
  sentinel) is written without that property, and decoding the text again gives
  the default.  Evaluated on the default node whose \<open>Extras\<close> is the object with the
  one entry \<open>scale\<close> = \<open>[1,1,1]\<close>: the text keeps the node's own \<open>scale\<close> property
  (the entry of \<open>Extras\<close> is removed in its place).  Evaluated on the default node
  named \<open>x,}\<close>: the text ends in \<open>,}\<close> and is not JSON, so it cannot be decoded
  again.
\<close>

theorem C5_default_property_not_omitted:
  "Node_MarshalJSON ff node_extras_scale = Inr ''{\"extras\":{},\"scale\":[1,1,1]}''
   \<and> array_eq (Scale node_extras_scale) DefaultScale
   \<and> Node_MarshalJSON ff node_name_brace = Inr ''{\"name\":\"x}\",}''"
  by (simp add: marshal_simps)

subsection \<open>Decoding the extensions map\<close>

lemma store_other:
  "key \<notin> fst ` set raw \<Longrightarrow> foldl (store_extension reg) ext raw key = ext key"
proof (induction raw arbitrary: ext)
  case Nil
  then show ?case by simp
next
  case (Cons kv raw)
  obtain k v where kv: "kv = (k, v)" by (cases kv)
  from Cons.prems kv have "key \<noteq> k" and "key \<notin> fst ` set raw" by auto
  then show ?case
    using Cons.IH [of "store_extension reg ext kv"]
    by (simp add: kv store_extension_def split: option.splits sum.splits)
qed

lemma store_member:
  assumes "distinct (map fst raw)" and "(key, value) \<in> set raw"
  shows "foldl (store_extension reg) ext raw key =
           Some (case reg key of
                   None \<Rightarrow> RawMessage value
                 | Some f \<Rightarrow> (case f value of Inl err \<Rightarrow> RawMessage value | Inr n \<Rightarrow> Decoded n))"
  using assms
proof (induction raw arbitrary: ext)
  case Nil
  then show ?case by simp
next
  case (Cons kv raw)
  show ?case
  proof (cases "kv = (key, value)")
    case True
    with Cons.prems have "key \<notin> fst ` set raw" by auto
    then have "foldl (store_extension reg) (store_extension reg ext kv) raw key
                 = store_extension reg ext kv key"
      by (rule store_other)
    moreover have "store_extension reg ext (key, value) key =
           Some (case reg key of
                   None \<Rightarrow> RawMessage value
                 | Some f \<Rightarrow> (case f value of Inl err \<Rightarrow> RawMessage value | Inr n \<Rightarrow> Decoded n))"
      by (simp add: store_extension_def split: option.splits sum.splits)
    ultimately show ?thesis
      by (simp add: True)
  next
    case False
    with Cons.prems have "(key, value) \<in> set raw" and "distinct (map fst raw)" by auto
    then show ?thesis using Cons.IH by simp
  qed
qed

text \<open>
  C8.  When the envelope decodes, \<open>UnmarshalJSON\<close> returns no error whatever the
  factories do with the payloads, and every key of the envelope is stored: with its
  raw payload, unchanged, when no factory is registered for the key or when the
  registered decoding of the payload fails, and with the decoded object otherwise.
\<close>

theorem C8_extension_failure_keeps_raw_payload:
  assumes "unmarshal data = Inr raw" and "distinct (map fst raw)"
  shows "fst (Extensions_UnmarshalJSON unmarshal extensions ext data) = None
         \<and> (\<forall>(key, value) \<in> set raw.
               snd (Extensions_UnmarshalJSON unmarshal extensions ext data) key =
                 Some (case extensions key of
                         None \<Rightarrow> RawMessage value
                       | Some extFactory \<Rightarrow>
                           (case extFactory value of
                              Inl err \<Rightarrow> RawMessage value
                            | Inr n \<Rightarrow> Decoded n)))"
  using assms by (auto simp: Extensions_UnmarshalJSON_def store_member)

text \<open>The extensions object \<open>{"KHR_lights":{"a":"x"},"XYZ_foo":{"a":1}}\<close>: the key
  \<open>XYZ_foo\<close> has no factory, the factory of \<open>KHR_lights\<close> fails on its payload; both
  payloads are stored as they came and no error is returned.\<close>

theorem C8_extension_failure_keeps_raw_payload_witness:
  "fst (Extensions_UnmarshalJSON envelope_of number_registry Map.empty (bytes_of extensions_json)) = None
   \<and> snd (Extensions_UnmarshalJSON envelope_of number_registry Map.empty (bytes_of extensions_json))
         ''XYZ_foo'' = Some (RawMessage (bytes_of ''{\"a\":1}''))
   \<and> snd (Extensions_UnmarshalJSON envelope_of number_registry Map.empty (bytes_of extensions_json))
         ''KHR_lights'' = Some (RawMessage (bytes_of ''{\"a\":\"x\"}''))"
  using C8_extension_failure_keeps_raw_payload
    [of envelope_of "bytes_of extensions_json" two_extensions number_registry Map.empty]
  by (simp add: two_extensions_def number_registry_def RegisterExtension_def envelope_of_def
        extensions_json_def bytes_of_def)

subsection \<open>UnmarshalJSON leaves the receiver alone when decoding fails\<close>

text \<open>
  C9.  For \<open>Node\<close>, \<open>Material\<close>, \<open>NormalTexture\<close>, \<open>OcclusionTexture\<close> and
  \<open>PBRMetallicRoughness\<close>: if \<open>json.Unmarshal\<close> into the seeded temporary fails,
  \<open>UnmarshalJSON\<close> returns that error and the receiver is what it was, whatever the
  failed decoding did to the temporary.
\<close>

theorem C9_failed_decode_keeps_receiver:
  "(fst (uN data (Node_zero\<lparr>Matrix := DefaultMatrix, Rotation := DefaultRotation, Scale := DefaultScale\<rparr>)) \<noteq> None
      \<longrightarrow> Node_UnmarshalJSON uN n data
            = (fst (uN data (Node_zero\<lparr>Matrix := DefaultMatrix, Rotation := DefaultRotation,
                                Scale := DefaultScale\<rparr>)), n))
   \<and> (fst (uM data (Material_zero\<lparr>AlphaCutoff := Some f64_half\<rparr>)) \<noteq> None
      \<longrightarrow> Material_UnmarshalJSON uM m data
            = (fst (uM data (Material_zero\<lparr>AlphaCutoff := Some f64_half\<rparr>)), m))
   \<and> (fst (uT data (NormalTexture_zero\<lparr>NT_Scale := Some f64_1\<rparr>)) \<noteq> None
      \<longrightarrow> NormalTexture_UnmarshalJSON uT t data
            = (fst (uT data (NormalTexture_zero\<lparr>NT_Scale := Some f64_1\<rparr>)), t))
   \<and> (fst (uO data (OcclusionTexture_zero\<lparr>OT_Strength := Some f64_1\<rparr>)) \<noteq> None
      \<longrightarrow> OcclusionTexture_UnmarshalJSON uO oc data
            = (fst (uO data (OcclusionTexture_zero\<lparr>OT_Strength := Some f64_1\<rparr>)), oc))
   \<and> (fst (uP data (PBRMetallicRoughness_zero\<lparr>BaseColorFactor := Some NewRGBA,
                MetallicFactor := Some f64_1, RoughnessFactor := Some f64_1\<rparr>)) \<noteq> None
      \<longrightarrow> PBRMetallicRoughness_UnmarshalJSON uP p data
            = (fst (uP data (PBRMetallicRoughness_zero\<lparr>BaseColorFactor := Some NewRGBA,
                  MetallicFactor := Some f64_1, RoughnessFactor := Some f64_1\<rparr>)), p))"
  by (simp add: Node_UnmarshalJSON_def Material_UnmarshalJSON_def NormalTexture_UnmarshalJSON_def
        OcclusionTexture_UnmarshalJSON_def PBRMetallicRoughness_UnmarshalJSON_def
        split: prod.splits)

text \<open>Decoders that fail after they have written to the temporary.\<close>

theorem C9_failed_decode_keeps_receiver_witness:
  "Node_UnmarshalJSON (\<lambda>data tmp. (Some (JSONError 1), tmp\<lparr>Name := ''partial''\<rparr>)) node_extras_scale []
     = (Some (JSONError 1), node_extras_scale)
   \<and> Material_UnmarshalJSON (\<lambda>data tmp. (Some (JSONError 1), tmp\<lparr>M_Name := ''partial''\<rparr>))
        (Material_zero\<lparr>DoubleSided := True\<rparr>) []
     = (Some (JSONError 1), Material_zero\<lparr>DoubleSided := True\<rparr>)
   \<and> NormalTexture_UnmarshalJSON (\<lambda>data tmp. (Some (JSONError 1), tmp\<lparr>NT_TexCoord := 7\<rparr>))
        (NormalTexture_zero\<lparr>NT_Scale := Some f64_half\<rparr>) []
     = (Some (JSONError 1), NormalTexture_zero\<lparr>NT_Scale := Some f64_half\<rparr>)
   \<and> OcclusionTexture_UnmarshalJSON (\<lambda>data tmp. (Some (JSONError 1), tmp\<lparr>OT_TexCoord := 7\<rparr>))
        (OcclusionTexture_zero\<lparr>OT_Strength := Some f64_half\<rparr>) []
     = (Some (JSONError 1), OcclusionTexture_zero\<lparr>OT_Strength := Some f64_half\<rparr>)
   \<and> PBRMetallicRoughness_UnmarshalJSON (\<lambda>data tmp. (Some (JSONError 1), tmp\<lparr>MetallicFactor := None\<rparr>))
        (PBRMetallicRoughness_zero\<lparr>RoughnessFactor := Some f64_half\<rparr>) []
     = (Some (JSONError 1), PBRMetallicRoughness_zero\<lparr>RoughnessFactor := Some f64_half\<rparr>)"
  using C9_failed_decode_keeps_receiver
    [of "\<lambda>data tmp. (Some (JSONError 1), tmp\<lparr>Name := ''partial''\<rparr>)" "[]"
        node_extras_scale
        "\<lambda>data tmp. (Some (JSONError 1), tmp\<lparr>M_Name := ''partial''\<rparr>)"
        "Material_zero\<lparr>DoubleSided := True\<rparr>"
        "\<lambda>data tmp. (Some (JSONError 1), tmp\<lparr>NT_TexCoord := 7\<rparr>)"
        "NormalTexture_zero\<lparr>NT_Scale := Some f64_half\<rparr>"
        "\<lambda>data tmp. (Some (JSONError 1), tmp\<lparr>OT_TexCoord := 7\<rparr>)"
        "OcclusionTexture_zero\<lparr>OT_Strength := Some f64_half\<rparr>"
        "\<lambda>data tmp. (Some (JSONError 1), tmp\<lparr>MetallicFactor := None\<rparr>)"
        "PBRMetallicRoughness_zero\<lparr>RoughnessFactor := Some f64_half\<rparr>"]
  by simp

end
